theory Spec2Isabelle
  imports Main
begin

section \<open>Strings\<close>

text \<open>
  A JavaScript string is modelled as a \<^typ>\<open>string\<close>: the list of its code units, each
  below 256. \<open>s.includes(w)\<close> is the search for a contiguous occurrence of \<open>w\<close>,
  \<open>s.trim()\<close> removes white space and line terminators at both ends, \<open>s.split(d)\<close> with a
  one-character separator cuts at every occurrence of it, \<open>xs.join(d)\<close> glues with \<open>d\<close>.
\<close>

definition startsWith :: "string \<Rightarrow> string \<Rightarrow> bool" where
  "startsWith s w = (take (length w) s = w)"

fun str_includes :: "string \<Rightarrow> string \<Rightarrow> bool" where
  "str_includes [] w = (w = [])"
| "str_includes (c # cs) w = (startsWith (c # cs) w \<or> str_includes cs w)"

definition digit :: string where
  "digit = ''0123456789''"

definition upper :: string where
  "upper = ''ABCDEFGHIJKLMNOPQRSTUVWXYZ''"

definition lower :: string where
  "lower = ''abcdefghijklmnopqrstuvwxyz''"

text \<open>White space of the language below 256: TAB, LF, VT, FF, CR, SP, NBSP.\<close>

definition ws :: string where
  "ws = [CHR 0x09, CHR 0x0A, CHR 0x0B, CHR 0x0C, CHR 0x0D, CHR 0x20, CHR 0xA0]"

definition line_terminator :: string where
  "line_terminator = [CHR 0x0A, CHR 0x0D]"

definition word_chars :: string where
  "word_chars = upper @ lower @ digit @ ''_''"

definition trim :: "string \<Rightarrow> string" where
  "trim s = rev (dropWhile (\<lambda>c. c \<in> set ws) (rev (dropWhile (\<lambda>c. c \<in> set ws) s)))"

fun split_char :: "char \<Rightarrow> string \<Rightarrow> string list" where
  "split_char d [] = [[]]"
| "split_char d (c # s) =
     (if c = d then [] # split_char d s
      else (case split_char d s of [] \<Rightarrow> [[c]] | x # xs \<Rightarrow> (c # x) # xs))"

fun join :: "string \<Rightarrow> string list \<Rightarrow> string" where
  "join d [] = []"
| "join d [x] = x"
| "join d (x # y # xs) = x @ d @ join d (y # xs)"

definition padStart2 :: "string \<Rightarrow> string" where
  "padStart2 s = replicate (2 - length s) (CHR ''0'') @ s"

section \<open>Regular expressions\<close>

text \<open>
  The regular expressions of the source are kept as syntax trees and run by a backtracking
  matcher written, as the language standard writes it, with continuations: a matcher takes
  a state and the continuation that has to succeed after it, and the first alternative
  whose continuation succeeds wins.

  \<^item> \<open>Atom neg cs\<close> is one code unit, in the set \<open>cs\<close> (not in it when \<open>neg\<close>);
    \<open>[A-Z\s]\<close> is \<open>Atom False (upper @ ws)\<close>, \<open>[^\n]\<close> is \<open>Atom True ''\n''\<close>,
    the dot is \<open>Atom True line_terminator\<close>.
  \<^item> \<open>Rep mn mx greedy r\<close> is the quantifier \<open>{mn,mx}\<close> (\<open>mx = None\<close>: unbounded), greedy
    or lazy. Every iteration has to consume input; the quantified expressions of the
    source never match the empty string, so this is the standard's behaviour on them.
  \<^item> \<open>Grp n r\<close> is the n-th capturing group, \<open>Ahead r\<close> the lookahead \<open>(?=r)\<close>,
    \<open>Bol\<close>, \<open>Eol\<close> and \<open>WordB\<close> are \<open>^\<close>, \<open>$\<close> and \<open>\b\<close>.

  The flags \<open>i\<close> and \<open>m\<close> are the arguments \<open>ic\<close> and \<open>ml\<close>. Under \<open>i\<close> code units are
  compared after \<open>canon\<close>, upper-casing of the ASCII letters: every character written in a
  pattern of the source is ASCII or white space, and on those the standard's Canonicalize
  identifies exactly the two cases of an ASCII letter.
\<close>

datatype re =
    Atom bool string
  | Bol
  | Eol
  | WordB
  | Eps
  | Seq re re
  | Alt re re
  | Rep nat "nat option" bool re
  | Grp nat re
  | Ahead re

type_synonym captures = "(nat \<times> string) list"

record mstate =
  m_prev :: "char option"
  m_rest :: string
  m_caps :: captures

definition canon :: "char \<Rightarrow> char" where
  "canon c = (case map_of (zip lower upper) c of Some u \<Rightarrow> u | None \<Rightarrow> c)"

definition cs_mem :: "bool \<Rightarrow> string \<Rightarrow> char \<Rightarrow> bool" where
  "cs_mem ic cs c = (if ic then canon c \<in> set (map canon cs) else c \<in> set cs)"

definition at_bol :: "bool \<Rightarrow> mstate \<Rightarrow> bool" where
  "at_bol ml st = (case m_prev st of None \<Rightarrow> True | Some c \<Rightarrow> ml \<and> c \<in> set line_terminator)"

definition at_eol :: "bool \<Rightarrow> mstate \<Rightarrow> bool" where
  "at_eol ml st = (case m_rest st of [] \<Rightarrow> True | c # s \<Rightarrow> ml \<and> c \<in> set line_terminator)"

definition at_wordb :: "mstate \<Rightarrow> bool" where
  "at_wordb st =
     ((case m_prev st of None \<Rightarrow> False | Some c \<Rightarrow> c \<in> set word_chars)
      \<noteq> (case m_rest st of [] \<Rightarrow> False | c # s \<Rightarrow> c \<in> set word_chars))"

function rep :: "nat \<Rightarrow> nat option \<Rightarrow> bool
    \<Rightarrow> (mstate \<Rightarrow> (mstate \<Rightarrow> mstate option) \<Rightarrow> mstate option)
    \<Rightarrow> mstate \<Rightarrow> (mstate \<Rightarrow> mstate option) \<Rightarrow> mstate option" where
  "rep mn mx greedy step st k =
     (let more = (\<lambda>u::unit.
            if mx = Some 0 then None
            else step st (\<lambda>st'.
                   if length (m_rest st') < length (m_rest st)
                   then rep (mn - 1) (map_option (\<lambda>n. n - 1) mx) greedy step st' k
                   else None));
          stop = (\<lambda>u::unit. if mn = 0 then k st else None)
      in if greedy then (case more () of Some x \<Rightarrow> Some x | None \<Rightarrow> stop ())
         else (case stop () of Some x \<Rightarrow> Some x | None \<Rightarrow> more ()))"
  by pat_completeness auto
termination
  by (relation "measure (\<lambda>(mn, mx, greedy, step, st, k). length (m_rest st))") auto

declare rep.simps [simp del]

primrec rm :: "re \<Rightarrow> bool \<Rightarrow> bool \<Rightarrow> mstate \<Rightarrow> (mstate \<Rightarrow> mstate option) \<Rightarrow> mstate option" where
  "rm (Atom neg cs) ic ml st k =
     (case m_rest st of
        [] \<Rightarrow> None
      | c # s \<Rightarrow> if cs_mem ic cs c \<noteq> neg then k (st\<lparr>m_prev := Some c, m_rest := s\<rparr>) else None)"
| "rm Bol ic ml st k = (if at_bol ml st then k st else None)"
| "rm Eol ic ml st k = (if at_eol ml st then k st else None)"
| "rm WordB ic ml st k = (if at_wordb st then k st else None)"
| "rm Eps ic ml st k = k st"
| "rm (Seq a b) ic ml st k = rm a ic ml st (\<lambda>st'. rm b ic ml st' k)"
| "rm (Alt a b) ic ml st k =
     (case rm a ic ml st k of Some x \<Rightarrow> Some x | None \<Rightarrow> rm b ic ml st k)"
| "rm (Rep mn mx greedy a) ic ml st k = rep mn mx greedy (rm a ic ml) st k"
| "rm (Grp n a) ic ml st k =
     rm a ic ml st (\<lambda>st'. k (st'\<lparr>m_caps :=
        (n, take (length (m_rest st) - length (m_rest st')) (m_rest st)) # m_caps st'\<rparr>))"
| "rm (Ahead a) ic ml st k =
     (case rm a ic ml st Some of None \<Rightarrow> None | Some x \<Rightarrow> k st)"

text \<open>Shorthands for the syntax of the source's patterns.\<close>

definition Lit :: "string \<Rightarrow> re" where
  "Lit w = foldr (\<lambda>c r. Seq (Atom False [c]) r) w Eps"

definition Seqs :: "re list \<Rightarrow> re" where
  "Seqs rs = foldr Seq rs Eps"

fun Alts :: "re list \<Rightarrow> re" where
  "Alts [] = Atom False []"
| "Alts [r] = r"
| "Alts (r # rs) = Alt r (Alts rs)"

definition Cls :: "string \<Rightarrow> re" where
  "Cls cs = Atom False cs"

definition NCls :: "string \<Rightarrow> re" where
  "NCls cs = Atom True cs"

definition Dot :: re where
  "Dot = Atom True line_terminator"

definition Star :: "re \<Rightarrow> re" where
  "Star r = Rep 0 None True r"

definition Plus :: "re \<Rightarrow> re" where
  "Plus r = Rep 1 None True r"

definition PlusLazy :: "re \<Rightarrow> re" where
  "PlusLazy r = Rep 1 None False r"

definition Opt :: "re \<Rightarrow> re" where
  "Opt r = Rep 0 (Some 1) True r"

definition Times :: "nat \<Rightarrow> nat \<Rightarrow> re \<Rightarrow> re" where
  "Times mn mx r = Rep mn (Some mx) True r"

definition AtLeast :: "nat \<Rightarrow> re \<Rightarrow> re" where
  "AtLeast mn r = Rep mn None True r"

text \<open>
  A regular expression with its flags \<open>i\<close> and \<open>m\<close>. The flag \<open>g\<close> of the source selects
  the operation: \<open>re_match_all\<close> and \<open>re_replace_all\<close> where it is set, \<open>re_match\<close> and
  \<open>re_replace\<close> where it is not.
\<close>

record regex =
  pat :: re
  icase :: bool
  multiline :: bool

definition RE :: "re \<Rightarrow> regex" where
  "RE r = \<lparr>pat = r, icase = False, multiline = False\<rparr>"

definition RE_i :: "re \<Rightarrow> regex" where
  "RE_i r = \<lparr>pat = r, icase = True, multiline = False\<rparr>"

definition RE_m :: "re \<Rightarrow> regex" where
  "RE_m r = \<lparr>pat = r, icase = False, multiline = True\<rparr>"

definition RE_mi :: "re \<Rightarrow> regex" where
  "RE_mi r = \<lparr>pat = r, icase = True, multiline = True\<rparr>"

text \<open>
  \<open>re_exec_at\<close>: the match that starts exactly at the current position (its text and its
  groups). \<open>re_search\<close>: the leftmost match at or after the current position, with the
  text skipped before it.
\<close>

definition re_exec_at :: "regex \<Rightarrow> char option \<Rightarrow> string \<Rightarrow> (string \<times> captures) option" where
  "re_exec_at r p s =
     map_option (\<lambda>st. (take (length s - length (m_rest st)) s, m_caps st))
       (rm (pat r) (icase r) (multiline r) \<lparr>m_prev = p, m_rest = s, m_caps = []\<rparr> Some)"

fun re_search :: "regex \<Rightarrow> char option \<Rightarrow> string \<Rightarrow> (string \<times> string \<times> captures) option" where
  "re_search r p [] = map_option (\<lambda>x. ([], x)) (re_exec_at r p [])"
| "re_search r p (c # s) =
     (case re_exec_at r p (c # s) of
        Some x \<Rightarrow> Some ([], x)
      | None \<Rightarrow> map_option (\<lambda>(b, x). (c # b, x)) (re_search r (Some c) s))"

definition re_test :: "regex \<Rightarrow> string \<Rightarrow> bool" where
  "re_test r s = (re_search r None s \<noteq> None)"

text \<open>\<open>s.match(r)\<close> without \<open>g\<close>: the first match, as its text and its groups.\<close>

definition re_match :: "regex \<Rightarrow> string \<Rightarrow> (string \<times> captures) option" where
  "re_match r s = map_option snd (re_search r None s)"

definition group :: "captures \<Rightarrow> nat \<Rightarrow> string" where
  "group g n = (case map_of g n of Some x \<Rightarrow> x | None \<Rightarrow> [])"

text \<open>
  \<open>re_scan\<close> walks over all matches, as the operations with the flag \<open>g\<close> do: each match
  comes with the text between the previous match and itself, and the text after the last
  match is returned beside the list. After an empty match the scan moves on by one code
  unit.
\<close>

fun scan_skip :: "char \<Rightarrow> (string \<times> string \<times> captures) list \<times> string
    \<Rightarrow> (string \<times> string \<times> captures) list \<times> string" where
  "scan_skip c ([], r) = ([], c # r)"
| "scan_skip c ((b, x) # segs, r) = ((c # b, x) # segs, r)"

function re_scan :: "regex \<Rightarrow> char option \<Rightarrow> string
    \<Rightarrow> (string \<times> string \<times> captures) list \<times> string" where
  "re_scan r p s =
     (case re_search r p s of
        None \<Rightarrow> ([], s)
      | Some (b, m, g) \<Rightarrow>
          (case drop (length b) s of
             [] \<Rightarrow> ([(b, m, g)], [])
           | c # s' \<Rightarrow>
               if m = [] then
                 (case scan_skip c (re_scan r (Some c) s') of
                    (segs, t) \<Rightarrow> ((b, m, g) # segs, t))
               else
                 (case re_scan r (Some (last m)) (drop (length m - 1) s') of
                    (segs, t) \<Rightarrow> ((b, m, g) # segs, t))))"
  by pat_completeness auto
termination
proof (relation "measure (\<lambda>(r, p, s). length s)")
  show "wf (measure (\<lambda>(r, p, s). length s))"
    by simp
next
  fix r :: regex and p :: "char option" and s b :: string and x m g c s'
  assume "drop (length b) s = c # s'"
  then have "length (drop (length b) s) = Suc (length s')"
    by simp
  then have "length s' < length s"
    by simp
  then show "((r, Some c, s'), r, p, s) \<in> measure (\<lambda>(r, p, s). length s)"
    by simp
next
  fix r :: regex and p :: "char option" and s b :: string and x m :: string and g c s'
  assume "drop (length b) s = c # s'"
  then have "length (drop (length b) s) = Suc (length s')"
    by simp
  then have "length s' < length s"
    by simp
  then show "((r, Some (last m), drop (length m - 1) s'), r, p, s) \<in> measure (\<lambda>(r, p, s). length s)"
    by simp
qed

declare re_scan.simps [simp del]

definition re_match_all :: "regex \<Rightarrow> string \<Rightarrow> string list" where
  "re_match_all r s = map (\<lambda>(b, m, g). m) (fst (re_scan r None s))"

definition re_replace_all :: "regex \<Rightarrow> (string \<Rightarrow> captures \<Rightarrow> string) \<Rightarrow> string \<Rightarrow> string" where
  "re_replace_all r f s =
     (case re_scan r None s of
        (segs, t) \<Rightarrow> concat (map (\<lambda>(b, m, g). b @ f m g) segs) @ t)"

definition re_replace :: "regex \<Rightarrow> (string \<Rightarrow> captures \<Rightarrow> string) \<Rightarrow> string \<Rightarrow> string" where
  "re_replace r f s =
     (case re_search r None s of
        None \<Rightarrow> s
      | Some (b, m, g) \<Rightarrow> b @ f m g @ drop (length b + length m) s)"

text \<open>
  \<open>s.split(r)\<close> for a separator that cannot match the empty string (the two separators of
  the source are \<open>\s+\<close> and \<open>\s+\d\<close>): the pieces between the matches.
\<close>

definition re_split :: "regex \<Rightarrow> string \<Rightarrow> string list" where
  "re_split r s = (case re_scan r None s of (segs, t) \<Rightarrow> map fst segs @ [t])"

section \<open>Issuer detection (src/utils/detectBank.js)\<close>

datatype error = UnrecognizedIssuer

definition is_rbc :: "string \<Rightarrow> bool" where
  "is_rbc header = (str_includes header ''Royal Bank of Canada'' \<or>
     (str_includes header ''RBC'' \<and> str_includes header ''account statement'') \<or>
     str_includes header ''www.rbcroyalbank.com'')"

definition is_cibc :: "string \<Rightarrow> bool" where
  "is_cibc header = (str_includes header ''CIBC Account Statement'' \<or>
     (str_includes header ''CIBC'' \<and> str_includes header ''Account Statement''))"

definition is_td :: "string \<Rightarrow> bool" where
  "is_td header = str_includes header ''TD Canada Trust''"

definition is_scotiabank :: "string \<Rightarrow> bool" where
  "is_scotiabank header = (str_includes header ''Scotiabank'' \<or> str_includes header ''Scotia'')"

definition is_bmo :: "string \<Rightarrow> bool" where
  "is_bmo header = (str_includes header ''BMO'' \<or> str_includes header ''Bank of Montreal'')"

text \<open>\<open>detectBank\<close>: the chain of \<open>if\<close> statements of the source, the \<open>throw\<close> as \<open>Inl\<close>.\<close>

definition detectBank :: "string \<Rightarrow> error + string" where
  "detectBank text =
     (let header = take 500 text in
      if is_rbc header then Inr ''rbc''
      else if is_cibc header then Inr ''cibc''
      else if is_td header then Inr ''td''
      else if is_scotiabank header then Inr ''scotiabank''
      else if is_bmo header then Inr ''bmo''
      else Inl UnrecognizedIssuer)"

text \<open>The issuer profiles in priority order, as the specification words them.\<close>

definition profiles :: "(string \<times> (string \<Rightarrow> bool)) list" where
  "profiles = [(''rbc'', is_rbc), (''cibc'', is_cibc), (''td'', is_td),
     (''scotiabank'', is_scotiabank), (''bmo'', is_bmo)]"

definition first_match :: "string \<Rightarrow> string option" where
  "first_match header = map_option fst (find (\<lambda>p. snd p header) profiles)"

section \<open>Redaction (src/scrubbers/rbc.js: the RBC and the CIBC scrubber)\<close>

text \<open>
  Each \<open>scrubbed = scrubbed.replace(pattern, replacement)\<close> of the source is a rule: the
  pattern and the replacement, a function of the matched text and its groups. A scrubber
  is the list of its rules in the order of the source's statements, applied one after the
  other.
\<close>

record rule =
  rx :: regex
  subst :: "string \<Rightarrow> captures \<Rightarrow> string"

definition apply_rule :: "string \<Rightarrow> rule \<Rightarrow> string" where
  "apply_rule text r = re_replace_all (rx r) (subst r) text"

definition const_rule :: "regex \<Rightarrow> string \<Rightarrow> rule" where
  "const_rule r w = \<lparr>rx = r, subst = (\<lambda>m g. w)\<rparr>"

subsection \<open>RBC\<close>

text \<open>1. \<open>/(?:Your\s+)?account number[:\s]*(\d{5}-\d{7})/gi\<close>\<close>

definition rbc_account_number :: rule where
  "rbc_account_number = const_rule
     (RE_i (Seqs [Opt (Seqs [Lit ''Your'', Plus (Cls ws)]), Lit ''account number'',
        Star (Cls ('':'' @ ws)),
        Grp 1 (Seqs [Times 5 5 (Cls digit), Lit ''-'', Times 7 7 (Cls digit)])]))
     ''Account number: [REDACTED]''"

text \<open>2. \<open>/\b\d{5}-\d{7}\b/g\<close>\<close>

definition rbc_standalone_account :: rule where
  "rbc_standalone_account = const_rule
     (RE (Seqs [WordB, Times 5 5 (Cls digit), Lit ''-'', Times 7 7 (Cls digit), WordB]))
     ''[REDACTED]''"

text \<open>3. \<open>/^([A-Z]+\s+[A-Z\-]+(?:\s+[A-Z\-]+)*)$/gm\<close>, replaced by a function of the match.\<close>

definition rbc_keepPatterns :: "string list" where
  "rbc_keepPatterns =
     [''ROYAL BANK'', ''RBC'', ''ACCOUNT'', ''STATEMENT'', ''TRANSACTION'',
      ''SERVICE'', ''DEPOSIT'', ''BALANCE'', ''DETAILS'', ''SUMMARY'',
      ''OPENING'', ''CLOSING'', ''WITHDRAWALS'', ''DEPOSITS'', ''CONTACT'',
      ''IMPORTANT'', ''PROTECT'', ''INFORMATION'', ''CANADIAN'']"

definition rbc_name_subst :: "string \<Rightarrow> captures \<Rightarrow> string" where
  "rbc_name_subst m g =
     (if list_ex (\<lambda>pattern. str_includes m pattern) rbc_keepPatterns then m
      else (let words = re_split (RE (Plus (Cls ws))) (trim m) in
            if 2 \<le> length words \<and> length words \<le> 4 \<and> length m < 50
            then ''[NAME REDACTED]'' else m))"

definition rbc_name :: rule where
  "rbc_name = \<lparr>rx = RE_m (Seqs [Bol,
       Grp 1 (Seqs [Plus (Cls upper), Plus (Cls ws), Plus (Cls (upper @ ''-'')),
         Star (Seqs [Plus (Cls ws), Plus (Cls (upper @ ''-''))])]), Eol]),
     subst = rbc_name_subst\<rparr>"

text \<open>\<open>/^[A-Z]?\d{1,4}[A-Z]?$/gm\<close>\<close>

definition rbc_unit :: rule where
  "rbc_unit = const_rule
     (RE_m (Seqs [Bol, Opt (Cls upper), Times 1 4 (Cls digit), Opt (Cls upper), Eol]))
     ''[UNIT]''"

text \<open>\<open>/^\d{1,5}\s+[A-Z\s]+(?:STREET|ST|DRIVE|DR|AVENUE|AVE|ROAD|RD|BOULEVARD|BLVD|LANE|LN|COURT|CT|CRESCENT|CRES)$/gmi\<close>\<close>

definition rbc_street :: rule where
  "rbc_street = const_rule
     (RE_mi (Seqs [Bol, Times 1 5 (Cls digit), Plus (Cls ws), Plus (Cls (upper @ ws)),
        Alts [Lit ''STREET'', Lit ''ST'', Lit ''DRIVE'', Lit ''DR'', Lit ''AVENUE'', Lit ''AVE'',
              Lit ''ROAD'', Lit ''RD'', Lit ''BOULEVARD'', Lit ''BLVD'', Lit ''LANE'', Lit ''LN'',
              Lit ''COURT'', Lit ''CT'', Lit ''CRESCENT'', Lit ''CRES''], Eol]))
     ''[ADDRESS]''"

text \<open>\<open>/^[A-Z\s]+\s+[A-Z]{2}\s+[A-Z]\d[A-Z]\s?\d[A-Z]\d$/gm\<close>\<close>

definition postal_code :: re where
  "postal_code = Seqs [Cls upper, Cls digit, Cls upper, Opt (Cls ws), Cls digit, Cls upper, Cls digit]"

definition rbc_city_postal :: rule where
  "rbc_city_postal = const_rule
     (RE_m (Seqs [Bol, Plus (Cls (upper @ ws)), Plus (Cls ws), Times 2 2 (Cls upper),
        Plus (Cls ws), postal_code, Eol]))
     ''[CITY/POSTAL]''"

text \<open>4. \<open>/^\d{1,5}\s+[A-Z\s]+(?:DR|ST|AVE|RD|BLVD),\s+[A-Z\s]+,\s+[A-Z]{2}\s+[A-Z]\d[A-Z]\s?\d[A-Z]\d$/gm\<close>\<close>

definition rbc_branch_address :: rule where
  "rbc_branch_address = const_rule
     (RE_m (Seqs [Bol, Times 1 5 (Cls digit), Plus (Cls ws), Plus (Cls (upper @ ws)),
        Alts [Lit ''DR'', Lit ''ST'', Lit ''AVE'', Lit ''RD'', Lit ''BLVD''], Lit '','',
        Plus (Cls ws), Plus (Cls (upper @ ws)), Lit '','', Plus (Cls ws),
        Times 2 2 (Cls upper), Plus (Cls ws), postal_code, Eol]))
     ''[BRANCH ADDRESS]''"

text \<open>5. \<open>/(e-Transfer sent)\s+([A-Za-z\s]+?)\s+([A-Z0-9]{6})/g\<close>, replaced by \<open>$1 [RECIPIENT] [REF]\<close>\<close>

definition rbc_etransfer :: rule where
  "rbc_etransfer = \<lparr>rx = RE (Seqs [Grp 1 (Lit ''e-Transfer sent''), Plus (Cls ws),
       Grp 2 (PlusLazy (Cls (upper @ lower @ ws))), Plus (Cls ws),
       Grp 3 (Times 6 6 (Cls (upper @ digit)))]),
     subst = (\<lambda>m g. group g 1 @ '' [RECIPIENT] [REF]'')\<rparr>"

text \<open>6. \<open>/\b[A-Z0-9]{6}\b(?=\d)/g\<close>\<close>

definition rbc_ref_code :: rule where
  "rbc_ref_code = const_rule
     (RE (Seqs [WordB, Times 6 6 (Cls (upper @ digit)), WordB, Ahead (Cls digit)]))
     ''[REF]''"

text \<open>7. \<open>/(Contactless Interac purchase|Online Banking payment|Telephone Bill Pmt)\s+-\s+\d{4}/g\<close>,
  replaced by \<open>$1 - [REF]\<close>\<close>

definition rbc_txn_ref :: rule where
  "rbc_txn_ref = \<lparr>rx = RE (Seqs [
       Grp 1 (Alts [Lit ''Contactless Interac purchase'', Lit ''Online Banking payment'',
                    Lit ''Telephone Bill Pmt'']),
       Plus (Cls ws), Lit ''-'', Plus (Cls ws), Times 4 4 (Cls digit)]),
     subst = (\<lambda>m g. group g 1 @ '' - [REF]'')\<rparr>"

text \<open>8. \<open>/RBPDA\d+_\d+_\d+[-\s\w]*/g\<close>\<close>

definition rbc_doc_ref :: rule where
  "rbc_doc_ref = const_rule
     (RE (Seqs [Lit ''RBPDA'', Plus (Cls digit), Lit ''_'', Plus (Cls digit), Lit ''_'',
        Plus (Cls digit), Star (Cls (''-'' @ ws @ word_chars))]))
     ''[DOC-REF]''"

text \<open>9. \<open>/\*\d{8}\*/g\<close>\<close>

definition rbc_barcode :: rule where
  "rbc_barcode = const_rule (RE (Seqs [Lit ''*'', Times 8 8 (Cls digit), Lit ''*''])) ''[BARCODE]''"

text \<open>10. \<open>/\d-\d{3}-\d{3}-\d{4}/g\<close>\<close>

definition rbc_phone :: rule where
  "rbc_phone = const_rule
     (RE (Seqs [Cls digit, Lit ''-'', Times 3 3 (Cls digit), Lit ''-'', Times 3 3 (Cls digit),
        Lit ''-'', Times 4 4 (Cls digit)]))
     ''[PHONE]''"

text \<open>11. and 8. of CIBC: \<open>/\n{3,}/g\<close>, replaced by two line feeds\<close>

definition blank_lines :: rule where
  "blank_lines = const_rule (RE (AtLeast 3 (Lit ''\<newline>''))) ''\<newline>\<newline>''"

definition rbc_rules :: "rule list" where
  "rbc_rules = [rbc_account_number, rbc_standalone_account, rbc_name, rbc_unit, rbc_street,
     rbc_city_postal, rbc_branch_address, rbc_etransfer, rbc_ref_code, rbc_txn_ref,
     rbc_doc_ref, rbc_barcode, rbc_phone, blank_lines]"

definition scrub_rbc :: "string \<Rightarrow> string" where
  "scrub_rbc text = foldl apply_rule text rbc_rules"

subsection \<open>CIBC\<close>

text \<open>1. \<open>/^[A-Z][A-Z\s]+$/gm\<close>, replaced by a function of the match.\<close>

definition cibc_keepPatterns :: "string list" where
  "cibc_keepPatterns =
     [''CIBC'', ''VISA'', ''ACCOUNT'', ''STATEMENT'', ''TRANSACTION'', ''SERVICE'', ''DEPOSIT'',
      ''BALANCE'']"

definition cibc_name_subst :: "string \<Rightarrow> captures \<Rightarrow> string" where
  "cibc_name_subst m g =
     (if list_ex (\<lambda>pattern. str_includes m pattern) cibc_keepPatterns then m
      else ''[NAME REDACTED]'')"

definition cibc_name :: rule where
  "cibc_name = \<lparr>rx = RE_m (Seqs [Bol, Cls upper, Plus (Cls (upper @ ws)), Eol]),
     subst = cibc_name_subst\<rparr>"

text \<open>2. \<open>/Account number[:\s]+[\d-]+/gi\<close>\<close>

definition cibc_account_number :: rule where
  "cibc_account_number = const_rule
     (RE_i (Seqs [Lit ''Account number'', Plus (Cls ('':'' @ ws)), Plus (Cls (digit @ ''-''))]))
     ''Account number: [REDACTED]''"

text \<open>3. \<open>/Branch transit number[:\s]+\d+/gi\<close>\<close>

definition cibc_branch_transit :: rule where
  "cibc_branch_transit = const_rule
     (RE_i (Seqs [Lit ''Branch transit number'', Plus (Cls ('':'' @ ws)), Plus (Cls digit)]))
     ''Branch transit number: [REDACTED]''"

text \<open>4. \<open>/(E-TRANSFER\s+)(\d+)\s*\n\s*([^\n]+)/g\<close>, replaced by \<open>$1[REF]\n[RECIPIENT]\<close>\<close>

definition cibc_etransfer :: rule where
  "cibc_etransfer = \<lparr>rx = RE (Seqs [Grp 1 (Seqs [Lit ''E-TRANSFER'', Plus (Cls ws)]),
       Grp 2 (Plus (Cls digit)), Star (Cls ws), Lit ''\<newline>'', Star (Cls ws),
       Grp 3 (Plus (NCls ''\<newline>''))]),
     subst = (\<lambda>m g. group g 1 @ ''[REF]\<newline>[RECIPIENT]'')\<rparr>"

text \<open>5. \<open>/([A-Z\/\*\s\.]+)\s{2,}(\d{10,})/g\<close>, replaced by \<open>$1\<close>\<close>

definition cibc_merchant_ref :: rule where
  "cibc_merchant_ref = \<lparr>rx = RE (Seqs [Grp 1 (Plus (Cls (upper @ ''/*'' @ ws @ ''.''))),
       AtLeast 2 (Cls ws), Grp 2 (AtLeast 10 (Cls digit))]),
     subst = (\<lambda>m g. group g 1)\<rparr>"

text \<open>6. \<open>/\d+\.\d{2} CAD @ [\d\.]+/g\<close>\<close>

definition cibc_cad_conversion :: rule where
  "cibc_cad_conversion = const_rule
     (RE (Seqs [Plus (Cls digit), Lit ''.'', Times 2 2 (Cls digit), Lit '' CAD @ '',
        Plus (Cls (digit @ ''.''))]))
     ''''"

text \<open>7. \<open>/^\d{10}\s*$/gm\<close>\<close>

definition cibc_preauth_id :: rule where
  "cibc_preauth_id = const_rule
     (RE_m (Seqs [Bol, Times 10 10 (Cls digit), Star (Cls ws), Eol]))
     ''[REF]''"

definition cibc_rules :: "rule list" where
  "cibc_rules = [cibc_name, cibc_account_number, cibc_branch_transit, cibc_etransfer,
     cibc_merchant_ref, cibc_cad_conversion, cibc_preauth_id, blank_lines]"

definition scrub_cibc :: "string \<Rightarrow> string" where
  "scrub_cibc text = foldl apply_rule text cibc_rules"

text \<open>
  The place of a rule in a pass: the index of the first rule with the given pattern.
\<close>

fun rule_pos :: "regex \<Rightarrow> rule list \<Rightarrow> nat option" where
  "rule_pos r [] = None"
| "rule_pos r (x # xs) = (if rx x = r then Some 0 else map_option Suc (rule_pos r xs))"

section \<open>Amounts\<close>

text \<open>
  Every text the source hands to \<open>parseFloat\<close> comes out of a pattern that ends in
  \<open>\.\d{2}\<close>, after \<open>replace(/,/g, '')\<close>: digits, a point, two digits. The source holds
  its value as a double, the one nearest to the decimal; the model holds the decimal
  itself, as its integer number of cents. Up to fifteen digits, different decimals have
  different doubles in the same order, so comparisons and \<open>Math.max\<close> agree; longer
  tokens can fall together in the source and stay apart here. A difference of the model
  is the exact one, which the source rounds to the nearest double (\<open>0.30 - 0.10\<close> is 20
  cents here and \<open>0.19999999999999998\<close> there): an amount of the model is the amount of
  the source up to that rounding, with the same sign.
\<close>

definition replace_commas :: "string \<Rightarrow> string" where
  "replace_commas n = filter (\<lambda>c. c \<noteq> CHR '','') n"

definition digit_val :: "char \<Rightarrow> nat" where
  "digit_val c = length (takeWhile (\<lambda>d. d \<noteq> c) digit)"

definition digits_val :: "string \<Rightarrow> nat" where
  "digits_val ds = foldl (\<lambda>n c. 10 * n + digit_val c) 0 ds"

definition parseFloat_cents :: "string \<Rightarrow> int" where
  "parseFloat_cents s = int (digits_val (filter (\<lambda>c. c \<in> set digit) s))"

section \<open>Dates (convertToISO)\<close>

definition months :: "(string \<times> string) list" where
  "months =
     [(''January'', ''01''), (''February'', ''02''), (''March'', ''03''), (''April'', ''04''),
      (''May'', ''05''), (''June'', ''06''), (''July'', ''07''), (''August'', ''08''),
      (''September'', ''09''), (''October'', ''10''), (''November'', ''11''), (''December'', ''12''),
      (''Jan'', ''01''), (''Feb'', ''02''), (''Mar'', ''03''), (''Apr'', ''04''),
      (''Jun'', ''06''), (''Jul'', ''07''), (''Aug'', ''08''),
      (''Sep'', ''09''), (''Oct'', ''10''), (''Nov'', ''11''), (''Dec'', ''12'')]"

text \<open>
  \<open>convertToISO\<close> is only called on a month name and a day number that a date pattern has
  matched, joined by one space; a missing month would print as \<open>undefined\<close>.
\<close>

definition convertToISO :: "string \<Rightarrow> string \<Rightarrow> string" where
  "convertToISO dateStr year =
     (let parts = re_split (RE (Plus (Cls ws))) (trim dateStr);
          month = (case map_of months (case parts of [] \<Rightarrow> [] | x # xs \<Rightarrow> x) of
                     Some m \<Rightarrow> m | None \<Rightarrow> ''undefined'');
          day = (case parts of x # d # xs \<Rightarrow> padStart2 d | _ \<Rightarrow> [])
      in year @ ''-'' @ month @ ''-'' @ day)"

text \<open>\<open>/^(Nov|Dec|Jan|Feb|Mar|Apr|May|Jun|Jul|Aug|Sep|Oct)\s+(\d+)/\<close>\<close>

definition cibc_date :: regex where
  "cibc_date = RE (Seqs [Bol,
     Grp 1 (Alts [Lit ''Nov'', Lit ''Dec'', Lit ''Jan'', Lit ''Feb'', Lit ''Mar'', Lit ''Apr'',
                  Lit ''May'', Lit ''Jun'', Lit ''Jul'', Lit ''Aug'', Lit ''Sep'', Lit ''Oct'']),
     Plus (Cls ws), Grp 2 (Plus (Cls digit))])"

text \<open>\<open>/^(\d{1,2})\s+(Jan|Feb|Mar|Apr|May|Jun|Jul|Aug|Sep|Oct|Nov|Dec)/\<close>\<close>

definition rbc_date :: regex where
  "rbc_date = RE (Seqs [Bol, Grp 1 (Times 1 2 (Cls digit)), Plus (Cls ws),
     Grp 2 (Alts [Lit ''Jan'', Lit ''Feb'', Lit ''Mar'', Lit ''Apr'', Lit ''May'', Lit ''Jun'',
                  Lit ''Jul'', Lit ''Aug'', Lit ''Sep'', Lit ''Oct'', Lit ''Nov'', Lit ''Dec''])])"

text \<open>\<open>/[\d,]+\.\d{2}/\<close>: a decimal-formatted numeric token.\<close>

definition num_token :: re where
  "num_token = Seqs [Plus (Cls (digit @ '','')), Lit ''.'', Times 2 2 (Cls digit)]"

text \<open>A text has a token when the pattern matches somewhere in it.\<close>

definition has_token :: "string \<Rightarrow> bool" where
  "has_token s = re_test (RE num_token) s"

section \<open>The balance-reconciliation extractor (src/parsers/balance-based.js)\<close>

record btxn =
  b_date :: string
  b_type :: string
  b_merchant :: string
  b_description :: string
  b_amount :: int
  b_balance :: int

text \<open>\<open>cleanMerchantName\<close>\<close>

definition bal_cleanMerchantName :: "string \<Rightarrow> string" where
  "bal_cleanMerchantName merchant0 =
     (let merchant = trim (re_replace_all (RE (Plus (Cls ws))) (\<lambda>m g. '' '') merchant0);
          merchant = trim (re_replace_all (RE (Lit ''[REDACTED]'')) (\<lambda>m g. '''') merchant);
          merchant = trim (re_replace_all (RE (Lit ''[RECIPIENT]'')) (\<lambda>m g. ''E-Transfer Recipient'') merchant);
          merchant = trim (re_replace_all (RE (Lit ''[REF]'')) (\<lambda>m g. '''') merchant);
          merchant = re_replace (RE_i (Seqs [Plus (Cls ws), Lit ''INC'', Opt (Lit ''.''), Eol])) (\<lambda>m g. '''') merchant;
          merchant = re_replace (RE_i (Seqs [Plus (Cls ws), Lit ''LTD'', Opt (Lit ''.''), Eol])) (\<lambda>m g. '''') merchant
      in if str_includes merchant ''UBER'' then ''Uber''
         else if str_includes merchant ''SPOTIFY'' then ''Spotify''
         else if str_includes merchant ''WEALTHSIMPLE'' then ''Wealthsimple''
         else if str_includes merchant ''GOODLIFE'' then ''GoodLife Fitness''
         else if str_includes merchant ''SPORTCHEK'' then ''SportChek''
         else if str_includes merchant ''MARKS.COM'' then ''Marks''
         else if str_includes merchant ''FOOD BASICS'' then ''Food Basics''
         else if str_includes merchant ''STARBUCKS'' then ''Starbucks''
         else if str_includes merchant ''REXALL'' then ''Rexall Pharmacy''
         else if merchant = [] then ''Unknown Merchant'' else merchant)"

text \<open>The transaction patterns of \<open>parseTransactionLine\<close>, all with the flag \<open>i\<close>.\<close>

definition bal_patterns :: "regex list" where
  "bal_patterns = map RE_i
     [Seqs [Lit ''VISA DEBIT'', Star Dot, Lit ''PURCHASE''],
      Seqs [Lit ''VISA DEBIT'', Star Dot, Lit ''REVERSAL''],
      Lit ''INTL VISA DEB'',
      Lit ''E-TRANSFER'',
      Lit ''e-Transfer'',
      Lit ''PREAUTHORIZED DEBIT'',
      Lit ''DEPOSIT'',
      Lit ''INTERNET TRANSFER'',
      Lit ''SERVICE CHARGE'',
      Lit ''Contactless Interac purchase'',
      Lit ''Online Banking payment'',
      Lit ''Telephone Bill Pmt'',
      Lit ''Misc Payment'',
      Lit ''Monthly fee'']"

text \<open>\<open>/^\d+[\.,]\d{2}$/\<close>: a line that is just a balance.\<close>

definition bal_just_balance :: regex where
  "bal_just_balance = RE (Seqs [Bol, Plus (Cls digit), Cls ''.,'', Times 2 2 (Cls digit), Eol])"

text \<open>
  The merchant name, from the next line: \<open>/^([A-Z][A-Z\s_\-\/\*\.]+?)(?=\d)/\<close>, or else,
  when the line starts with a capital, \<open>nextLine.split(/\s+\d/)[0]\<close>.
\<close>

definition bal_merchant :: "string list \<Rightarrow> nat \<Rightarrow> string" where
  "bal_merchant allLines currentIndex =
     (if currentIndex + 1 < length allLines then
        (let nextLine = trim (allLines ! (currentIndex + 1)) in
         case re_match (RE (Seqs [Bol,
                  Grp 1 (Seqs [Cls upper, PlusLazy (Cls (upper @ ws @ ''_-/*.''))]),
                  Ahead (Cls digit)])) nextLine of
           Some (m, g) \<Rightarrow> trim (group g 1)
         | None \<Rightarrow>
             if re_test (RE (Seqs [Bol, Cls upper])) nextLine
             then (case re_split (RE (Seqs [Plus (Cls ws), Cls digit])) nextLine of
                     [] \<Rightarrow> [] | x # xs \<Rightarrow> trim x)
             else ''Unknown'')
      else ''Unknown'')"

text \<open>
  The balance among the tokens: the rightmost one with a comma (the loop of the source
  runs from the last index down), or else \<open>Math.max\<close> of all of them.
\<close>

definition has_comma :: "string \<Rightarrow> bool" where
  "has_comma n = str_includes n '',''"

definition bal_currentBalance :: "string list \<Rightarrow> int" where
  "bal_currentBalance allNumbers =
     (case find has_comma (rev allNumbers) of
        Some n \<Rightarrow> parseFloat_cents (replace_commas n)
      | None \<Rightarrow>
          (case map (\<lambda>n. parseFloat_cents (replace_commas n)) allNumbers of
             [] \<Rightarrow> 0
           | x # xs \<Rightarrow> foldl max x xs))"

text \<open>\<open>/REVERSAL|DEPOSIT|E-TRANSFER.*sent|e-Transfer.*sent|Misc Payment/i\<close>\<close>

definition bal_isCredit :: regex where
  "bal_isCredit = RE_i (Alts [Lit ''REVERSAL'', Lit ''DEPOSIT'',
     Seqs [Lit ''E-TRANSFER'', Star Dot, Lit ''sent''],
     Seqs [Lit ''e-Transfer'', Star Dot, Lit ''sent''], Lit ''Misc Payment''])"

text \<open>
  \<open>searchText\<close>: \<open>allLines.slice(currentIndex, currentIndex + 3).join(' ')\<close>, the line and
  up to two lines after it.
\<close>

definition searchText :: "string list \<Rightarrow> nat \<Rightarrow> string" where
  "searchText allLines currentIndex = join '' '' (take 3 (drop currentIndex allLines))"

text \<open>
  \<open>parseTransactionLine\<close>. The source binds \<open>isCredit\<close> to the keyword match of the line
  and goes on; \<open>bal_transaction\<close> is the rest of the function body with that binding as an
  argument.
\<close>

definition bal_transaction :: "bool \<Rightarrow> string \<Rightarrow> string \<Rightarrow> string \<Rightarrow> int \<Rightarrow> int \<Rightarrow> btxn" where
  "bal_transaction isCredit line date merchant previousBalance currentBalance =
     (let amount = previousBalance - currentBalance;
          type = (if amount < 0 then ''credit'' else ''debit'')
      in \<lparr>b_date = date, b_type = type, b_merchant = bal_cleanMerchantName merchant,
          b_description = trim (take 50 line), b_amount = amount, b_balance = currentBalance\<rparr>)"

definition bal_parseTransactionLine_with :: "(string \<Rightarrow> bool) \<Rightarrow> string \<Rightarrow> string \<Rightarrow> string list
    \<Rightarrow> nat \<Rightarrow> int option \<Rightarrow> btxn option" where
  "bal_parseTransactionLine_with keyword line date allLines currentIndex previousBalance =
     (if re_test bal_just_balance line then None
      else if str_includes line ''CORRECTION'' then None
      else if \<not> list_ex (\<lambda>p. re_test p line) bal_patterns then None
      else
        (let merchant = bal_merchant allLines currentIndex;
             allNumbers = re_match_all (RE num_token) (searchText allLines currentIndex)
         in if allNumbers = [] then None
            else
              (let currentBalance = bal_currentBalance allNumbers in
               case previousBalance of
                 None \<Rightarrow> None
               | Some pb \<Rightarrow>
                   Some (bal_transaction (keyword line) line date merchant pb currentBalance))))"

definition bal_parseTransactionLine :: "string \<Rightarrow> string \<Rightarrow> string list \<Rightarrow> nat \<Rightarrow> int option
    \<Rightarrow> btxn option" where
  "bal_parseTransactionLine = bal_parseTransactionLine_with (re_test bal_isCredit)"

text \<open>\<open>parseTransactions\<close>: the lines skipped as headers and junk.\<close>

definition bal_junk :: "string list" where
  "bal_junk = [''Transaction details'', ''Details of your account'', ''Page '', ''continued'',
     ''DateDescription'', ''Balance forward'', ''Opening balance'', ''Closing balance'',
     ''Account Statement'']"

definition bal_skip :: "string \<Rightarrow> bool" where
  "bal_skip line = (line = [] \<or> list_ex (\<lambda>w. str_includes line w) bal_junk)"

text \<open>\<open>/(?:Your\s+)?[Oo]pening balance[^\$]*\$?([\d,]+\.\d{2})/i\<close>\<close>

definition bal_opening :: regex where
  "bal_opening = RE_i (Seqs [Opt (Seqs [Lit ''Your'', Plus (Cls ws)]), Cls ''Oo'',
     Lit ''pening balance'', Star (NCls ''$''), Opt (Lit ''$''), Grp 1 num_token])"

definition bal_dateMatch :: "string \<Rightarrow> string \<Rightarrow> string \<Rightarrow> string option" where
  "bal_dateMatch bank line year =
     (if bank = ''cibc'' then
        (case re_match cibc_date line of
           None \<Rightarrow> None
         | Some (m, g) \<Rightarrow> Some (convertToISO (group g 1 @ '' '' @ group g 2) year))
      else if bank = ''rbc'' then
        (case re_match rbc_date line of
           None \<Rightarrow> None
         | Some (m, g) \<Rightarrow> Some (convertToISO (group g 2 @ '' '' @ group g 1) year))
      else None)"

text \<open>
  The state of the loop: \<open>currentDate\<close>, \<open>previousBalance\<close> and the transactions pushed so
  far. \<open>bal_step\<close> is one pass through the body of the \<open>for\<close> loop, at index \<open>i\<close>.
\<close>

record bal_state =
  currentDate :: "string option"
  previousBalance :: "int option"
  transactions :: "btxn list"

definition bal_step :: "string \<Rightarrow> string \<Rightarrow> string list \<Rightarrow> nat \<Rightarrow> bal_state \<Rightarrow> bal_state" where
  "bal_step year bank lines i st =
     (let line = trim (lines ! i) in
      if bal_skip line then st
      else
        (let st1 = (case bal_dateMatch bank line year of
                      None \<Rightarrow> st
                    | Some d \<Rightarrow> st\<lparr>currentDate := Some d\<rparr>)
         in case currentDate st1 of
              None \<Rightarrow> st1
            | Some date \<Rightarrow>
                (case bal_parseTransactionLine line date lines i (previousBalance st1) of
                   None \<Rightarrow> st1
                 | Some transaction \<Rightarrow>
                     st1\<lparr>transactions := transactions st1 @ [transaction],
                         previousBalance := Some (b_balance transaction)\<rparr>)))"

function bal_loop :: "string \<Rightarrow> string \<Rightarrow> string list \<Rightarrow> nat \<Rightarrow> bal_state \<Rightarrow> bal_state" where
  "bal_loop year bank lines i st =
     (if i < length lines then bal_loop year bank lines (Suc i) (bal_step year bank lines i st)
      else st)"
  by pat_completeness auto
termination
  by (relation "measure (\<lambda>(year, bank, lines, i, st). length lines - i)") auto

declare bal_loop.simps [simp del]

definition bal_openingBalance :: "string \<Rightarrow> int option" where
  "bal_openingBalance text =
     (case re_match bal_opening text of
        None \<Rightarrow> None
      | Some (m, g) \<Rightarrow> Some (parseFloat_cents (replace_commas (group g 1))))"

definition bal_parseTransactions :: "string \<Rightarrow> string \<Rightarrow> string \<Rightarrow> btxn list" where
  "bal_parseTransactions text year bank =
     transactions (bal_loop year bank (split_char CHR ''\<newline>'' text) 0
       \<lparr>currentDate = None, previousBalance = bal_openingBalance text, transactions = []\<rparr>)"

text \<open>
  The state in which the loop reaches index \<open>i\<close>: the passes at the indices below \<open>i\<close>,
  one after the other, from the state the loop starts in.
\<close>

primrec bal_before :: "string \<Rightarrow> string \<Rightarrow> string list \<Rightarrow> bal_state \<Rightarrow> nat \<Rightarrow> bal_state" where
  "bal_before year bank lines st0 0 = st0"
| "bal_before year bank lines st0 (Suc i) =
     bal_step year bank lines i (bal_before year bank lines st0 i)"

text \<open>
  The reconciliation property of a list of transactions, from the balance \<open>B\<close> before the
  first one: the amount of each is the balance before it minus its own balance.
\<close>

fun chain :: "int \<Rightarrow> btxn list \<Rightarrow> bool" where
  "chain B [] = True"
| "chain B (t # ts) = (b_amount t = B - b_balance t \<and> chain (b_balance t) ts)"

text \<open>
  A transaction read from the tokens of the window of some line: its balance is the one
  the tokens of that window give.
\<close>

definition from_window :: "string list \<Rightarrow> btxn \<Rightarrow> bool" where
  "from_window lines t =
     (\<exists>i < length lines. re_match_all (RE num_token) (searchText lines i) \<noteq> []
        \<and> b_balance t = bal_currentBalance (re_match_all (RE num_token) (searchText lines i)))"





section \<open>The CIBC line-scan extractor (src/parsers/cibc.js)\<close>

text \<open>A transaction of the two line-scan extractors; a debit has a negative amount.\<close>

record txn =
  t_date :: string
  t_type :: string
  t_merchant :: string
  t_description :: string
  t_amount :: int

definition cibc_months :: "(string \<times> string) list" where
  "cibc_months =
     [(''Jan'', ''01''), (''Feb'', ''02''), (''Mar'', ''03''), (''Apr'', ''04''),
      (''May'', ''05''), (''Jun'', ''06''), (''Jul'', ''07''), (''Aug'', ''08''),
      (''Sep'', ''09''), (''Oct'', ''10''), (''Nov'', ''11''), (''Dec'', ''12'')]"

definition cibc_convertToISO :: "string \<Rightarrow> string \<Rightarrow> string" where
  "cibc_convertToISO dateStr year =
     (let parts = re_split (RE (Plus (Cls ws))) (trim dateStr);
          month = (case map_of cibc_months (case parts of [] \<Rightarrow> [] | x # xs \<Rightarrow> x) of
                     Some m \<Rightarrow> m | None \<Rightarrow> ''undefined'');
          day = (case parts of x # d # xs \<Rightarrow> padStart2 d | _ \<Rightarrow> [])
      in year @ ''-'' @ month @ ''-'' @ day)"

definition cibc_cleanMerchantName :: "string \<Rightarrow> string" where
  "cibc_cleanMerchantName merchant0 =
     (let merchant = trim (re_replace_all (RE (Plus (Cls ws))) (\<lambda>m g. '' '') merchant0);
          merchant = trim (re_replace_all (RE (Lit ''[REDACTED]'')) (\<lambda>m g. '''') merchant);
          merchant = trim (re_replace_all (RE (Lit ''[RECIPIENT]'')) (\<lambda>m g. ''E-Transfer Recipient'') merchant);
          merchant = trim (re_replace_all (RE (Lit ''[REF]'')) (\<lambda>m g. '''') merchant);
          merchant = re_replace (RE_i (Seqs [Plus (Cls ws), Lit ''INC'', Opt (Lit ''.''), Eol])) (\<lambda>m g. '''') merchant;
          merchant = re_replace (RE_i (Seqs [Plus (Cls ws), Lit ''LTD'', Opt (Lit ''.''), Eol])) (\<lambda>m g. '''') merchant;
          merchant = re_replace (RE_i (Seqs [Plus (Cls ws), Lit ''CORP'', Opt (Lit ''.''), Eol])) (\<lambda>m g. '''') merchant
      in if str_includes merchant ''UBER'' then ''Uber''
         else if str_includes merchant ''SPOTIFY'' then ''Spotify''
         else if str_includes merchant ''WEALTHSIMPLE'' then ''Wealthsimple''
         else if str_includes merchant ''GOODLIFE'' then ''GoodLife Fitness''
         else if str_includes merchant ''SPORTCHEK'' then ''SportChek''
         else if str_includes merchant ''MARKS.COM'' then ''Marks''
         else if str_includes merchant ''CIBC Securities'' then ''CIBC Securities''
         else if merchant = [] then ''Unknown Merchant'' else merchant)"

text \<open>The pattern table of \<open>parseTransactionLine\<close>, in the order of the source.\<close>

record cibc_pattern =
  c_type :: string
  c_regex :: regex
  c_merchantNext :: bool
  c_merchant :: "string option"
  c_isCredit :: bool

definition cibc_patterns :: "cibc_pattern list" where
  "cibc_patterns =
     [\<lparr>c_type = ''VISA DEBIT RETAIL PURCHASE'',
       c_regex = RE_i (Seqs [Lit ''VISA DEBIT'', Star Dot, Lit ''PURCHASE'']),
       c_merchantNext = True, c_merchant = None, c_isCredit = False\<rparr>,
      \<lparr>c_type = ''VISA DEBIT PURCHASE REVERSAL'',
       c_regex = RE_i (Seqs [Lit ''VISA DEBIT'', Star Dot, Lit ''REVERSAL'']),
       c_merchantNext = True, c_merchant = None, c_isCredit = True\<rparr>,
      \<lparr>c_type = ''INTL VISA DEB RETAIL PURCHASE'',
       c_regex = RE_i (Seqs [Lit ''INTL VISA DEB'', Star Dot, Lit ''PURCHASE'']),
       c_merchantNext = True, c_merchant = None, c_isCredit = False\<rparr>,
      \<lparr>c_type = ''E-TRANSFER'',
       c_regex = RE_i (Lit ''E-TRANSFER''),
       c_merchantNext = False, c_merchant = Some ''E-Transfer'', c_isCredit = True\<rparr>,
      \<lparr>c_type = ''PREAUTHORIZED DEBIT'',
       c_regex = RE_i (Lit ''PREAUTHORIZED DEBIT''),
       c_merchantNext = True, c_merchant = None, c_isCredit = False\<rparr>,
      \<lparr>c_type = ''DEPOSIT'',
       c_regex = RE_i (Seqs [Bol, Lit ''DEPOSIT'', Eol]),
       c_merchantNext = True, c_merchant = None, c_isCredit = True\<rparr>,
      \<lparr>c_type = ''INTERNET TRANSFER'',
       c_regex = RE_i (Lit ''INTERNET TRANSFER''),
       c_merchantNext = False, c_merchant = Some ''Internet Transfer'', c_isCredit = False\<rparr>,
      \<lparr>c_type = ''SERVICE CHARGE'',
       c_regex = RE_i (Lit ''SERVICE CHARGE''),
       c_merchantNext = True, c_merchant = None, c_isCredit = False\<rparr>]"

text \<open>
  The merchant of a matched pattern: \<open>pattern.merchant || 'Unknown'\<close>, replaced from the next
  line through \<open>/^([A-Z][A-Z\s\/\.\*\-\[\]]+?)(?:\s+[\d,\.]+|$)/\<close> when \<open>merchantNext\<close> is set.
\<close>

definition cibc_merchant :: "cibc_pattern \<Rightarrow> string list \<Rightarrow> nat \<Rightarrow> string" where
  "cibc_merchant pattern allLines currentIndex =
     (let merchant = (case c_merchant pattern of Some m \<Rightarrow> m | None \<Rightarrow> ''Unknown'') in
      if c_merchantNext pattern \<and> currentIndex + 1 < length allLines then
        (case re_match (RE (Seqs [Bol,
                  Grp 1 (Seqs [Cls upper, PlusLazy (Cls (upper @ ws @ ''/.*-[]''))]),
                  Alt (Seqs [Plus (Cls ws), Plus (Cls (digit @ '',.''))]) Eol]))
                (trim (allLines ! (currentIndex + 1))) of
           Some (m, g) \<Rightarrow> trim (group g 1)
         | None \<Rightarrow> merchant)
      else merchant)"

text \<open>
  The loop over the patterns: a pattern that matches the line returns the transaction when
  \<open>searchText.match(/([\d,]+\.\d{2})/)\<close> finds an amount, and otherwise the loop goes on.
\<close>

primrec cibc_try_patterns :: "cibc_pattern list \<Rightarrow> string \<Rightarrow> string \<Rightarrow> string list \<Rightarrow> nat
    \<Rightarrow> txn option" where
  "cibc_try_patterns [] line date allLines currentIndex = None"
| "cibc_try_patterns (pattern # rest) line date allLines currentIndex =
     (if re_test (c_regex pattern) line then
        (let merchant = cibc_merchant pattern allLines currentIndex in
         case re_match (RE (Grp 1 num_token)) (searchText allLines currentIndex) of
           Some (m, g) \<Rightarrow>
             (let amount = parseFloat_cents (replace_commas (group g 1)) in
              Some \<lparr>t_date = date,
                    t_type = (if c_isCredit pattern then ''credit'' else ''debit''),
                    t_merchant = cibc_cleanMerchantName merchant,
                    t_description = c_type pattern,
                    t_amount = (if c_isCredit pattern then amount else - amount)\<rparr>)
         | None \<Rightarrow> cibc_try_patterns rest line date allLines currentIndex)
      else cibc_try_patterns rest line date allLines currentIndex)"

definition cibc_parseTransactionLine :: "string \<Rightarrow> string \<Rightarrow> string list \<Rightarrow> nat \<Rightarrow> txn option" where
  "cibc_parseTransactionLine line date allLines currentIndex =
     (if str_includes line ''CORRECTION'' then None
      else cibc_try_patterns cibc_patterns line date allLines currentIndex)"

definition cibc_junk :: "string list" where
  "cibc_junk = [''Transaction details'', ''Page '', ''continued on next page'', ''DateDescription'',
     ''Balance forward'', ''Opening balance'', ''Closing balance'', ''CIBC Account Statement'']"

definition cibc_skip :: "string \<Rightarrow> bool" where
  "cibc_skip line = (line = [] \<or> list_ex (\<lambda>w. str_includes line w) cibc_junk)"

text \<open>
  The state of the loop of \<open>parseTransactions\<close>: \<open>currentDate\<close> and the transactions pushed
  so far. \<open>cibc_step\<close> is one pass through the body of the \<open>while\<close> loop, at index \<open>i\<close>.
\<close>

record scan_state =
  s_currentDate :: "string option"
  s_transactions :: "txn list"

definition push :: "txn option \<Rightarrow> scan_state \<Rightarrow> scan_state" where
  "push transaction st =
     (case transaction of
        None \<Rightarrow> st
      | Some t \<Rightarrow> st\<lparr>s_transactions := s_transactions st @ [t]\<rparr>)"

definition cibc_step :: "string \<Rightarrow> string list \<Rightarrow> nat \<Rightarrow> scan_state \<Rightarrow> scan_state" where
  "cibc_step year lines i st =
     (let line = trim (lines ! i) in
      if cibc_skip line then st
      else
        (case re_match cibc_date line of
           Some (m, g) \<Rightarrow>
             (let date = cibc_convertToISO (group g 1 @ '' '' @ group g 2) year;
                  restOfLine = drop (length m) line
              in push (cibc_parseTransactionLine restOfLine date lines i)
                   (st\<lparr>s_currentDate := Some date\<rparr>))
         | None \<Rightarrow>
             (case s_currentDate st of
                Some date \<Rightarrow> push (cibc_parseTransactionLine line date lines i) st
              | None \<Rightarrow> st)))"

function cibc_loop :: "string \<Rightarrow> string list \<Rightarrow> nat \<Rightarrow> scan_state \<Rightarrow> scan_state" where
  "cibc_loop year lines i st =
     (if i < length lines then cibc_loop year lines (Suc i) (cibc_step year lines i st) else st)"
  by pat_completeness auto
termination
  by (relation "measure (\<lambda>(year, lines, i, st). length lines - i)") auto

declare cibc_loop.simps [simp del]



section \<open>The RBC line-scan extractor (the file of src/unnamed beginning \<open>RBC-specific transaction parser\<close>)\<close>

definition rbc_cleanMerchantName :: "string \<Rightarrow> string" where
  "rbc_cleanMerchantName merchant0 =
     (let merchant = trim (re_replace_all (RE (Plus (Cls ws))) (\<lambda>m g. '' '') merchant0);
          merchant = trim (re_replace_all (RE (Lit ''[REDACTED]'')) (\<lambda>m g. '''') merchant);
          merchant = trim (re_replace_all (RE (Lit ''[RECIPIENT]'')) (\<lambda>m g. ''E-Transfer Recipient'') merchant);
          merchant = trim (re_replace_all (RE (Lit ''[REF]'')) (\<lambda>m g. '''') merchant);
          merchant = re_replace (RE (Seqs [Plus (Cls ws), Times 2 4 (Cls digit), Eol])) (\<lambda>m g. '''') merchant;
          merchant = re_replace (RE_i (Seqs [Plus (Cls ws), Lit ''INC'', Opt (Lit ''.''), Eol])) (\<lambda>m g. '''') merchant;
          merchant = re_replace (RE_i (Seqs [Plus (Cls ws), Lit ''LTD'', Opt (Lit ''.''), Eol])) (\<lambda>m g. '''') merchant
      in if str_includes merchant ''FOOD BASICS'' then ''Food Basics''
         else if str_includes merchant ''STARBUCKS'' then ''Starbucks''
         else if str_includes merchant ''REXALL'' then ''Rexall Pharmacy''
         else if str_includes merchant ''GREEN FRESH'' then ''Green Fresh''
         else if str_includes merchant ''EVERGREEN'' then ''Evergreen Kitchen''
         else if str_includes merchant ''MARSHALLS'' then ''Marshalls''
         else if str_includes merchant ''LAGO BAR'' then ''Lago Bar & Grill''
         else if str_includes merchant ''FIDO'' then ''Fido Mobile''
         else if str_includes merchant ''COKE_'' then ''Coca-Cola Vending''
         else if str_includes merchant ''SUPPLEMENT'' then ''Supplement King''
         else if str_includes merchant ''ZERO LATENCY'' then ''Zero Latency''
         else (let merchant = re_replace_all (RE (Lit ''_'')) (\<lambda>m g. '' '') merchant in
               if merchant = [] then ''Unknown Merchant'' else merchant))"

text \<open>
  The pattern table of \<open>parseTransactionLine\<close>; \<open>extractMerchant\<close> takes the line, all lines
  and the index. \<open>amount_tail\<close> is the end \<open>(?:\d+\.\d{2}|$)\<close> shared by three of them.
\<close>

record rbc_pattern =
  r_type :: string
  r_regex :: regex
  r_isCredit :: bool
  r_extractMerchant :: "string \<Rightarrow> string list \<Rightarrow> nat \<Rightarrow> string"

definition amount_tail :: re where
  "amount_tail = Alt (Seqs [Plus (Cls digit), Lit ''.'', Times 2 2 (Cls digit)]) Eol"

definition rbc_etransfer_merchant :: "string \<Rightarrow> string list \<Rightarrow> nat \<Rightarrow> string" where
  "rbc_etransfer_merchant line lines idx =
     (case re_match (RE_i (Seqs [Lit ''e-Transfer sent'', Plus (Cls ws), Grp 1 (PlusLazy Dot),
              amount_tail])) line of
        Some (m, g) \<Rightarrow> trim (group g 1)
      | None \<Rightarrow> ''E-Transfer'')"

text \<open>\<open>/^([A-Z\s_]+\d{2,4}?)/\<close> on the next line\<close>

definition rbc_interac_merchant :: "string \<Rightarrow> string list \<Rightarrow> nat \<Rightarrow> string" where
  "rbc_interac_merchant line lines idx =
     (if idx + 1 < length lines then
        (case re_match (RE (Seqs [Bol, Grp 1 (Seqs [Plus (Cls (upper @ ws @ ''_'')),
                  Rep 2 (Some 4) False (Cls digit)])])) (trim (lines ! (idx + 1))) of
           Some (m, g) \<Rightarrow> trim (group g 1)
         | None \<Rightarrow> ''Contactless Purchase'')
      else ''Contactless Purchase'')"

text \<open>\<open>/Online Banking payment\s*-\s*\[REF\]\s*([A-Z\s]+)/i\<close>, or \<open>/^([A-Z\s]+?)(\d|$)/\<close> on the next line\<close>

definition rbc_online_merchant :: "string \<Rightarrow> string list \<Rightarrow> nat \<Rightarrow> string" where
  "rbc_online_merchant line lines idx =
     (case re_match (RE_i (Seqs [Lit ''Online Banking payment'', Star (Cls ws), Lit ''-'',
              Star (Cls ws), Lit ''[REF]'', Star (Cls ws), Grp 1 (Plus (Cls (upper @ ws)))])) line of
        Some (m, g) \<Rightarrow> trim (group g 1)
      | None \<Rightarrow>
          (if idx + 1 < length lines then
             (case re_match (RE (Seqs [Bol, Grp 1 (PlusLazy (Cls (upper @ ws))),
                       Grp 2 (Alt (Cls digit) Eol)])) (trim (lines ! (idx + 1))) of
                Some (m, g) \<Rightarrow> trim (group g 1)
              | None \<Rightarrow> ''Online Payment'')
           else ''Online Payment''))"

definition rbc_telephone_merchant :: "string \<Rightarrow> string list \<Rightarrow> nat \<Rightarrow> string" where
  "rbc_telephone_merchant line lines idx =
     (case re_match (RE_i (Seqs [Lit ''Telephone Bill Pmt'', Plus (Cls ws), Grp 1 (PlusLazy Dot),
              amount_tail])) line of
        Some (m, g) \<Rightarrow> trim (group g 1)
      | None \<Rightarrow> ''Bill Payment'')"

definition rbc_misc_merchant :: "string \<Rightarrow> string list \<Rightarrow> nat \<Rightarrow> string" where
  "rbc_misc_merchant line lines idx =
     (case re_match (RE_i (Seqs [Lit ''Misc Payment'', Plus (Cls ws), Grp 1 (PlusLazy Dot),
              amount_tail])) line of
        Some (m, g) \<Rightarrow> trim (group g 1)
      | None \<Rightarrow> ''Misc Payment'')"

definition rbc_patterns :: "rbc_pattern list" where
  "rbc_patterns =
     [\<lparr>r_type = ''E-Transfer'', r_regex = RE_i (Lit ''e-Transfer sent''),
       r_isCredit = False, r_extractMerchant = rbc_etransfer_merchant\<rparr>,
      \<lparr>r_type = ''Interac Purchase'', r_regex = RE_i (Lit ''Contactless Interac purchase''),
       r_isCredit = False, r_extractMerchant = rbc_interac_merchant\<rparr>,
      \<lparr>r_type = ''Online Banking Payment'', r_regex = RE_i (Lit ''Online Banking payment''),
       r_isCredit = False, r_extractMerchant = rbc_online_merchant\<rparr>,
      \<lparr>r_type = ''Telephone Bill Payment'', r_regex = RE_i (Lit ''Telephone Bill Pmt''),
       r_isCredit = False, r_extractMerchant = rbc_telephone_merchant\<rparr>,
      \<lparr>r_type = ''Misc Payment'', r_regex = RE_i (Lit ''Misc Payment''),
       r_isCredit = True, r_extractMerchant = rbc_misc_merchant\<rparr>,
      \<lparr>r_type = ''Monthly Fee'', r_regex = RE_i (Lit ''Monthly fee''),
       r_isCredit = False, r_extractMerchant = (\<lambda>line lines idx. ''RBC Monthly Fee'')\<rparr>]"

text \<open>
  The amount when the next line holds exactly one number \<open>numStr\<close>: an integer part of
  three to five digits and no comma is taken as store code and amount glued together, and
  \<open>numStr.match(/(\d{1,3})\.(\d{2})$/)\<close> picks the amount.
\<close>

definition rbc_single_amount :: "string \<Rightarrow> int" where
  "rbc_single_amount numStr =
     (let intPart = replace_commas (case split_char CHR ''.'' numStr of [] \<Rightarrow> [] | x # xs \<Rightarrow> x) in
      if 3 \<le> length intPart \<and> length intPart \<le> 5 \<and> \<not> str_includes numStr '','' then
        (case re_match (RE (Seqs [Grp 1 (Times 1 3 (Cls digit)), Lit ''.'',
                  Grp 2 (Times 2 2 (Cls digit)), Eol])) numStr of
           Some (m, g) \<Rightarrow> parseFloat_cents (group g 1 @ ''.'' @ group g 2)
         | None \<Rightarrow> 0)
      else parseFloat_cents (replace_commas numStr))"

text \<open>
  The amount from the next line (\<open>0\<close> when there is no next line or no number on it): one
  number, two numbers (the first when the second exceeds 1000, else the second), three or
  more (the one before the last).
\<close>

definition rbc_amount :: "string list \<Rightarrow> nat \<Rightarrow> int" where
  "rbc_amount allLines currentIndex =
     (if currentIndex + 1 < length allLines then
        (let nextLine = trim (allLines ! (currentIndex + 1));
             allNumbers = re_match_all (RE num_token) nextLine;
             nums = map (\<lambda>n. parseFloat_cents (replace_commas n)) allNumbers
         in case allNumbers of
              [] \<Rightarrow> 0
            | [numStr] \<Rightarrow> rbc_single_amount numStr
            | [n0, n1] \<Rightarrow> (if nums ! 1 > 100000 then nums ! 0 else nums ! 1)
            | _ \<Rightarrow> nums ! (length nums - 2))
      else 0)"

primrec rbc_try_patterns :: "rbc_pattern list \<Rightarrow> string \<Rightarrow> string \<Rightarrow> string list \<Rightarrow> nat
    \<Rightarrow> txn option" where
  "rbc_try_patterns [] line date allLines currentIndex = None"
| "rbc_try_patterns (pattern # rest) line date allLines currentIndex =
     (if re_test (r_regex pattern) line then
        (let merchant = r_extractMerchant pattern line allLines currentIndex;
             amount = rbc_amount allLines currentIndex
         in if amount > 0 then
              Some \<lparr>t_date = date,
                    t_type = (if r_isCredit pattern then ''credit'' else ''debit''),
                    t_merchant = rbc_cleanMerchantName merchant,
                    t_description = r_type pattern,
                    t_amount = (if r_isCredit pattern then amount else - amount)\<rparr>
            else rbc_try_patterns rest line date allLines currentIndex)
      else rbc_try_patterns rest line date allLines currentIndex)"

text \<open>\<open>/^\d+,?\d*\.\d{2}$/\<close>: a balance line\<close>

definition rbc_balance_line :: regex where
  "rbc_balance_line = RE (Seqs [Bol, Plus (Cls digit), Opt (Lit '',''), Star (Cls digit), Lit ''.'',
     Times 2 2 (Cls digit), Eol])"

definition rbc_parseTransactionLine :: "string \<Rightarrow> string \<Rightarrow> string list \<Rightarrow> nat \<Rightarrow> txn option" where
  "rbc_parseTransactionLine line date allLines currentIndex =
     (if re_test rbc_balance_line line then None
      else rbc_try_patterns rbc_patterns line date allLines currentIndex)"

definition rbc_junk :: "string list" where
  "rbc_junk = [''Details of your account activity'', ''Page '', ''DateDescription'',
     ''Opening Balance'', ''Closing Balance'', ''Your RBC personal banking'',
     ''Royal Bank of Canada'']"

definition rbc_skip :: "string \<Rightarrow> bool" where
  "rbc_skip line = (line = [] \<or> list_ex (\<lambda>w. str_includes line w) rbc_junk)"

definition rbc_step :: "string \<Rightarrow> string list \<Rightarrow> nat \<Rightarrow> scan_state \<Rightarrow> scan_state" where
  "rbc_step year lines i st =
     (let line = trim (lines ! i) in
      if rbc_skip line then st
      else
        (case re_match rbc_date line of
           Some (m, g) \<Rightarrow>
             (let date = convertToISO (group g 2 @ '' '' @ group g 1) year;
                  restOfLine = trim (drop (length m) line)
              in push (rbc_parseTransactionLine restOfLine date lines i)
                   (st\<lparr>s_currentDate := Some date\<rparr>))
         | None \<Rightarrow>
             (case s_currentDate st of
                Some date \<Rightarrow> push (rbc_parseTransactionLine line date lines i) st
              | None \<Rightarrow> st)))"

function rbc_loop :: "string \<Rightarrow> string list \<Rightarrow> nat \<Rightarrow> scan_state \<Rightarrow> scan_state" where
  "rbc_loop year lines i st =
     (if i < length lines then rbc_loop year lines (Suc i) (rbc_step year lines i st) else st)"
  by pat_completeness auto
termination
  by (relation "measure (\<lambda>(year, lines, i, st). length lines - i)") auto

declare rbc_loop.simps [simp del]

definition rbc_parseTransactions :: "string \<Rightarrow> string \<Rightarrow> txn list" where
  "rbc_parseTransactions text year =
     s_transactions (rbc_loop year (split_char CHR ''\<newline>'' text) 0
       \<lparr>s_currentDate = None, s_transactions = []\<rparr>)"

section \<open>Learning from a correction (the learn-merchant route of src/unnamed)\<close>















section \<open>Evaluation of the matcher on given strings\<close>

text \<open>
  The basic character classes, decided from the eight bits of a code unit.
\<close>

lemma mem_digit:
  "(Char b0 b1 b2 b3 b4 b5 b6 b7 \<in> set digit) = (\<not> b7 \<and> (\<not> b6 \<and> (b5 \<and> (b4 \<and> (\<not> b3 \<or> (\<not> b2 \<and> \<not> b1))))))"
  unfolding digit_def
  by (simp only: list.set insert_iff empty_iff char.inject append.simps set_append Un_iff) argo

lemma mem_upper:
  "(Char b0 b1 b2 b3 b4 b5 b6 b7 \<in> set upper) = (\<not> b7 \<and> (b6 \<and> (\<not> b5 \<and> (if b4 then (\<not> b3 \<or> (\<not> b2 \<and> (\<not> b1 \<or> \<not> b0))) else (b3 \<or> (b2 \<or> (b1 \<or> b0)))))))"
  unfolding upper_def
  by (simp only: list.set insert_iff empty_iff char.inject append.simps set_append Un_iff) argo

lemma mem_lower:
  "(Char b0 b1 b2 b3 b4 b5 b6 b7 \<in> set lower) = (\<not> b7 \<and> (b6 \<and> (b5 \<and> (if b4 then (\<not> b3 \<or> (\<not> b2 \<and> (\<not> b1 \<or> \<not> b0))) else (b3 \<or> (b2 \<or> (b1 \<or> b0)))))))"
  unfolding lower_def
  by (simp only: list.set insert_iff empty_iff char.inject append.simps set_append Un_iff) argo

lemma mem_ws:
  "(Char b0 b1 b2 b3 b4 b5 b6 b7 \<in> set ws) = (if b7 then (\<not> b6 \<and> (b5 \<and> (\<not> b4 \<and> (\<not> b3 \<and> (\<not> b2 \<and> (\<not> b1 \<and> \<not> b0)))))) else (\<not> b6 \<and> (if b5 then (\<not> b4 \<and> (\<not> b3 \<and> (\<not> b2 \<and> (\<not> b1 \<and> \<not> b0)))) else (\<not> b4 \<and> (b3 \<and> (if b2 then \<not> b1 else (b1 \<or> b0)))))))"
  unfolding ws_def
  by (simp only: list.set insert_iff empty_iff char.inject append.simps set_append Un_iff) argo

lemma mem_line_terminator:
  "(Char b0 b1 b2 b3 b4 b5 b6 b7 \<in> set line_terminator) = (\<not> b7 \<and> (\<not> b6 \<and> (\<not> b5 \<and> (\<not> b4 \<and> (b3 \<and> (if b2 then (\<not> b1 \<and> b0) else (b1 \<and> \<not> b0)))))))"
  unfolding line_terminator_def
  by (simp only: list.set insert_iff empty_iff char.inject append.simps set_append Un_iff) argo

lemma mem_word_chars:
  "(Char b0 b1 b2 b3 b4 b5 b6 b7 \<in> set word_chars) = (\<not> b7 \<and> (if b6 then (if b5 then (if b4 then (\<not> b3 \<or> (\<not> b2 \<and> (\<not> b1 \<or> \<not> b0))) else (b3 \<or> (b2 \<or> (b1 \<or> b0)))) else (if b4 then (\<not> b3 \<or> (if b2 then (b1 \<and> b0) else (\<not> b1 \<or> \<not> b0))) else (b3 \<or> (b2 \<or> (b1 \<or> b0))))) else (b5 \<and> (b4 \<and> (\<not> b3 \<or> (\<not> b2 \<and> \<not> b1))))))"
  unfolding word_chars_def upper_def lower_def digit_def
  by (simp only: list.set insert_iff empty_iff char.inject append.simps set_append Un_iff) argo

lemma canon_not_lower: "c \<notin> set lower \<Longrightarrow> canon c = c"
proof -
  assume "c \<notin> set lower"
  moreover have "fst ` set (zip lower upper) = set lower"
    by (simp add: lower_def upper_def)
  ultimately have "map_of (zip lower upper) c = None"
    by (simp only: map_of_eq_None_iff not_False_eq_True)
  then show ?thesis
    by (simp add: canon_def)
qed

lemma canon_table:
  "canon CHR ''a'' = CHR ''A''" "canon CHR ''b'' = CHR ''B''" "canon CHR ''c'' = CHR ''C''"
  "canon CHR ''d'' = CHR ''D''" "canon CHR ''e'' = CHR ''E''" "canon CHR ''f'' = CHR ''F''"
  "canon CHR ''g'' = CHR ''G''" "canon CHR ''h'' = CHR ''H''" "canon CHR ''i'' = CHR ''I''"
  "canon CHR ''j'' = CHR ''J''" "canon CHR ''k'' = CHR ''K''" "canon CHR ''l'' = CHR ''L''"
  "canon CHR ''m'' = CHR ''M''" "canon CHR ''n'' = CHR ''N''" "canon CHR ''o'' = CHR ''O''"
  "canon CHR ''p'' = CHR ''P''" "canon CHR ''q'' = CHR ''Q''" "canon CHR ''r'' = CHR ''R''"
  "canon CHR ''s'' = CHR ''S''" "canon CHR ''t'' = CHR ''T''" "canon CHR ''u'' = CHR ''U''"
  "canon CHR ''v'' = CHR ''V''" "canon CHR ''w'' = CHR ''W''" "canon CHR ''x'' = CHR ''X''"
  "canon CHR ''y'' = CHR ''Y''" "canon CHR ''z'' = CHR ''Z''"
  by (simp_all only: canon_def lower_def upper_def zip_Cons_Cons map_of_Cons_code char.inject
      simp_thms if_True if_False option.case)

lemma canon_Char:
  "canon (Char b0 b1 b2 b3 b4 b5 b6 b7) =
     (if Char b0 b1 b2 b3 b4 b5 b6 b7 \<in> set lower then Char b0 b1 b2 b3 b4 False b6 b7
      else Char b0 b1 b2 b3 b4 b5 b6 b7)"
proof (cases "Char b0 b1 b2 b3 b4 b5 b6 b7 \<in> set lower")
  case False
  then show ?thesis
    by (simp add: canon_not_lower)
next
  case True
  then have "\<not> b7" "b6" "b5"
    by (simp_all add: mem_lower)
  with True show ?thesis
    by (cases b0; cases b1; cases b2; cases b3; cases b4; simp add: canon_table mem_lower)
qed

lemma canon_idem: "canon (canon c) = canon c"
  by (cases c) (simp add: canon_Char mem_lower)

lemma cs_mem_False: "cs_mem False cs c = (c \<in> set cs)"
  by (simp add: cs_mem_def)

lemma cs_mem_True_Nil: "cs_mem True [] c = False"
  by (simp add: cs_mem_def)

lemma cs_mem_True_Cons: "cs_mem True (x # xs) c = (canon x = canon c \<or> cs_mem True xs c)"
  by (auto simp add: cs_mem_def)

lemma cs_mem_True_append: "cs_mem True (xs @ ys) c = (cs_mem True xs c \<or> cs_mem True ys c)"
  by (auto simp add: cs_mem_def)


lemma map_canon_upper: "map canon upper = upper"
  by (simp add: upper_def canon_Char mem_lower)

lemma map_canon_lower: "map canon lower = upper"
  by (simp add: upper_def lower_def canon_Char mem_lower)

lemma map_canon_digit: "map canon digit = digit"
  by (simp add: digit_def canon_Char mem_lower)

lemma map_canon_ws: "map canon ws = ws"
  by (simp add: ws_def canon_Char mem_lower)

lemma map_canon_line_terminator: "map canon line_terminator = line_terminator"
  by (simp add: line_terminator_def canon_Char mem_lower)

lemma canon_in_upper: "(canon c \<in> set upper) = (c \<in> set upper \<or> c \<in> set lower)"
proof (cases c)
  case (Char b0 b1 b2 b3 b4 b5 b6 b7)
  then show ?thesis
    by (cases b5) (auto simp add: canon_Char mem_upper mem_lower)
qed

lemma canon_in_other:
  "set cs \<inter> set upper = {} \<Longrightarrow> set cs \<inter> set lower = {} \<Longrightarrow> (canon c \<in> set cs) = (c \<in> set cs)"
proof (cases c)
  case (Char b0 b1 b2 b3 b4 b5 b6 b7)
  assume a: "set cs \<inter> set upper = {}" "set cs \<inter> set lower = {}"
  show ?thesis
  proof (cases "c \<in> set lower")
    case True
    then have "canon c \<in> set upper"
      by (simp add: canon_in_upper)
    with a True show ?thesis
      by blast
  next
    case False
    with Char show ?thesis
      by (simp add: canon_Char)
  qed
qed

lemma cs_mem_True_upper: "cs_mem True upper c = (c \<in> set upper \<or> c \<in> set lower)"
  by (simp add: cs_mem_def map_canon_upper canon_in_upper)

lemma cs_mem_True_lower: "cs_mem True lower c = (c \<in> set upper \<or> c \<in> set lower)"
  by (simp add: cs_mem_def map_canon_lower canon_in_upper)

lemma cs_mem_True_digit: "cs_mem True digit c = (c \<in> set digit)"
proof -
  have "set digit \<inter> set upper = {}" "set digit \<inter> set lower = {}"
    by (simp_all add: digit_def upper_def lower_def)
  then have "(canon c \<in> set digit) = (c \<in> set digit)"
    by (rule canon_in_other)
  then show ?thesis
    by (simp add: cs_mem_def map_canon_digit)
qed

lemma cs_mem_True_ws: "cs_mem True ws c = (c \<in> set ws)"
proof -
  have "set ws \<inter> set upper = {}" "set ws \<inter> set lower = {}"
    by (simp_all add: ws_def upper_def lower_def)
  then have "(canon c \<in> set ws) = (c \<in> set ws)"
    by (rule canon_in_other)
  then show ?thesis
    by (simp add: cs_mem_def map_canon_ws)
qed

lemma cs_mem_True_line_terminator: "cs_mem True line_terminator c = (c \<in> set line_terminator)"
proof -
  have "set line_terminator \<inter> set upper = {}" "set line_terminator \<inter> set lower = {}"
    by (simp_all add: line_terminator_def upper_def lower_def)
  then have "(canon c \<in> set line_terminator) = (c \<in> set line_terminator)"
    by (rule canon_in_other)
  then show ?thesis
    by (simp add: cs_mem_def map_canon_line_terminator)
qed

lemma cs_mem_True_word_chars: "cs_mem True word_chars c = (c \<in> set word_chars)"
proof -
  have "set ''_'' \<inter> set upper = {}" "set ''_'' \<inter> set lower = {}"
    by (simp_all add: upper_def lower_def)
  then have "(canon c \<in> set ''_'') = (c \<in> set ''_'')"
    by (rule canon_in_other)
  moreover have "map canon ''_'' = ''_''"
    by (simp add: canon_Char mem_lower)
  ultimately have "cs_mem True ''_'' c = (c \<in> set ''_'')"
    by (simp only: cs_mem_def if_True)
  then show ?thesis
    by (simp only: word_chars_def cs_mem_True_append cs_mem_True_upper cs_mem_True_lower
        cs_mem_True_digit set_append Un_iff) blast
qed

lemmas cs_mem_eval = cs_mem_False cs_mem_True_Nil cs_mem_True_Cons cs_mem_True_append
  cs_mem_True_upper cs_mem_True_lower cs_mem_True_digit cs_mem_True_ws
  cs_mem_True_line_terminator cs_mem_True_word_chars canon_Char
  mem_digit mem_upper mem_lower mem_ws mem_line_terminator mem_word_chars

lemma rm_cong: "st = st' \<Longrightarrow> rm r ic ml st k = rm r ic ml st' k"
  by simp

lemma rep_cong: "mn = mn' \<Longrightarrow> mx = mx' \<Longrightarrow> st = st' \<Longrightarrow> rep mn mx g step st k = rep mn' mx' g step st' k"
  by simp

lemma re_search_cong: "p = p' \<Longrightarrow> s = s' \<Longrightarrow> re_search r p s = re_search r p' s'"
  by simp

lemma re_exec_at_eval:
  "re_exec_at \<lparr>pat = r, icase = ic, multiline = ml\<rparr> p s =
     map_option (\<lambda>st. (take (length s - length (m_rest st)) s, m_caps st))
       (rm r ic ml \<lparr>m_prev = p, m_rest = s, m_caps = []\<rparr> Some)"
  by (simp add: re_exec_at_def)

text \<open>
  Amounts are evaluated in integer arithmetic, digit by digit.
\<close>

lemma cents_eval:
  "parseFloat_cents s =
     foldl (\<lambda>n c. 10 * n + int (digit_val c)) 0 (filter (\<lambda>c. c \<in> set digit) s)"
proof -
  have "int (foldl (\<lambda>n c. 10 * n + digit_val c) a xs)
      = foldl (\<lambda>n c. 10 * n + int (digit_val c)) (int a) xs" for a xs
    by (induction xs arbitrary: a) simp_all
  from this [of 0] show ?thesis
    by (simp add: parseFloat_cents_def digits_val_def)
qed

lemma digit_val_table:
  "int (digit_val CHR ''0'') = 0" "int (digit_val CHR ''1'') = 1" "int (digit_val CHR ''2'') = 2"
  "int (digit_val CHR ''3'') = 3" "int (digit_val CHR ''4'') = 4" "int (digit_val CHR ''5'') = 5"
  "int (digit_val CHR ''6'') = 6" "int (digit_val CHR ''7'') = 7" "int (digit_val CHR ''8'') = 8"
  "int (digit_val CHR ''9'') = 9"
  by (simp_all add: digit_val_def digit_def)

text \<open>
  Equations for running the definitions on given strings, with the tests of a
  disjunction taken in order, as the source takes them.
\<close>

lemma length_Cons_Suc: "length (x # xs) = Suc (length xs)"
  by simp

lemma last_Cons_if: "last (x # xs) = (if xs = [] then x else last xs)"
  by simp

lemma not_Suc_le_0: "(Suc n \<le> 0) = False"
  by simp

lemma not_less_0: "(n < (0::nat)) = False"
  by simp

lemma list_ex_eval:
  "list_ex P [] = False" "list_ex P (x # xs) = (if P x then True else list_ex P xs)"
  by simp_all

lemma list_all_eval:
  "list_all P [] = True" "list_all P (x # xs) = (if P x then list_all P xs else False)"
  by simp_all

lemma str_includes_eval:
  "str_includes [] w = (w = [])"
  "str_includes (c # cs) w = (if startsWith (c # cs) w then True else str_includes cs w)"
  by simp_all

lemmas eval_base = simp_thms if_True if_False Let_def
  prod.case fst_conv snd_conv prod.inject
  option.case option.map option.distinct option.inject option.sel
  list.case list.map list.inject list.distinct list.sel append.simps append_Nil2 rev.simps
  foldl.simps foldr.simps filter.simps concat.simps takeWhile.simps dropWhile.simps
  list.size(3) length_Cons_Suc take_Suc_Cons take_0 take.simps(1) drop_Suc_Cons drop_0 drop.simps(1)
  nth_Cons_0 nth_Cons_Suc find.simps list_ex_eval list_all_eval map_of_Cons_code zip_Cons_Cons zip_Nil
  last_Cons_if replicate.simps list.set insert_iff empty_iff Un_iff set_append o_apply id_apply
  diff_Suc_Suc diff_zero diff_0_eq_0 Suc_less_eq zero_less_Suc not_less_0 Suc_le_mono le0 not_Suc_le_0
  add_Suc add_0 add_Suc_right add_0_right nat.inject nat.distinct One_nat_def
  numeral_eq_Suc pred_numeral_simps BitM.simps numeral_One
  char.inject arith_simps rel_simps more_arith_simps arith_special arith_extra_simps
  mult_zero_right mult_zero_left max_def
  cents_eval digit_val_table replace_commas_def

lemmas eval_cong = rm_cong rep_cong re_search_cong if_weak_cong let_weak_cong option.case_cong_weak
  list.case_cong_weak prod.case_cong_weak

lemmas re_eval = Lit_def Seqs_def Alts.simps Cls_def NCls_def Dot_def Star_def Plus_def PlusLazy_def
  Opt_def Times_def AtLeast_def RE_def RE_i_def RE_m_def RE_mi_def re_exec_at_eval re_test_def
  re_match_def group_def re_match_all_def re_replace_all_def re_replace_def re_split_def
  rep.simps re_scan.simps scan_skip.simps re_search.simps rm.simps at_bol_def at_eol_def
  at_wordb_def cs_mem_eval mstate.simps regex.simps

lemmas str_eval = startsWith_def str_includes_eval trim_def split_char.simps join.simps
  padStart2_def

lemmas scrub_eval = scrub_rbc_def scrub_cibc_def rule_pos.simps
  rbc_rules_def rbc_account_number_def rbc_standalone_account_def rbc_name_def
  rbc_unit_def rbc_street_def rbc_city_postal_def rbc_branch_address_def rbc_etransfer_def
  rbc_ref_code_def rbc_txn_ref_def rbc_doc_ref_def rbc_barcode_def rbc_phone_def blank_lines_def
  postal_code_def const_rule_def rbc_name_subst_def rbc_keepPatterns_def apply_rule_def
  cibc_rules_def cibc_name_def cibc_account_number_def cibc_branch_transit_def
  cibc_etransfer_def cibc_merchant_ref_def cibc_cad_conversion_def cibc_preauth_id_def
  cibc_name_subst_def cibc_keepPatterns_def rule.simps

lemmas bal_eval = bal_parseTransactions_def bal_openingBalance_def bal_loop.simps bal_step_def
  bal_dateMatch_def bal_opening_def bal_skip_def bal_junk_def bal_parseTransactionLine_def
  bal_parseTransactionLine_with_def bal_transaction_def searchText_def bal_isCredit_def
  bal_currentBalance_def has_comma_def bal_merchant_def bal_just_balance_def bal_patterns_def
  bal_cleanMerchantName_def num_token_def cibc_date_def rbc_date_def convertToISO_def months_def
  btxn.simps bal_state.simps


lemmas rbc_eval = rbc_parseTransactions_def rbc_loop.simps rbc_step_def rbc_skip_def rbc_junk_def
  rbc_parseTransactionLine_def rbc_try_patterns.simps rbc_patterns_def rbc_balance_line_def
  rbc_amount_def rbc_single_amount_def rbc_cleanMerchantName_def rbc_etransfer_merchant_def
  rbc_interac_merchant_def rbc_online_merchant_def rbc_telephone_merchant_def
  rbc_misc_merchant_def amount_tail_def convertToISO_def months_def rbc_date_def num_token_def
  push_def txn.simps scan_state.simps rbc_pattern.simps

section \<open>The balance-reconciliation extractor: one line, and the loop\<close>

lemma find_rev_last:
  "find P (rev xs) = (if filter P xs = [] then None else Some (last (filter P xs)))"
  by (induction xs rule: rev_induct) simp_all

lemma foldl_max_Max: "foldl max x xs = Max (set (x # xs))"
proof -
  have "Max (set (x # xs)) = fold max xs x"
    by (rule Max.set_eq_fold)
  also have "\<dots> = foldl max x xs"
    by (simp add: foldl_conv_fold max.commute)
  finally show ?thesis
    by simp
qed

text \<open>
  \<open>selected tokens\<close> is the balance as the claim words it: the value of the rightmost
  token with a comma, or the largest value when no token has a comma.
\<close>

lemma bal_currentBalance_spec:
  assumes "tokens \<noteq> []"
  shows "bal_currentBalance tokens =
     (if \<exists>n \<in> set tokens. has_comma n
      then parseFloat_cents (replace_commas (last (filter has_comma tokens)))
      else Max (set (map (\<lambda>n. parseFloat_cents (replace_commas n)) tokens)))"
proof (cases "filter has_comma tokens = []")
  case True
  then have none: "\<not> (\<exists>n \<in> set tokens. has_comma n)"
    by (simp add: filter_empty_conv)
  from assms obtain x xs where "map (\<lambda>n. parseFloat_cents (replace_commas n)) tokens = x # xs"
    by (cases tokens) auto
  with True none show ?thesis
    by (simp add: bal_currentBalance_def find_rev_last foldl_max_Max del: set_map)
next
  case False
  then have some: "\<exists>n \<in> set tokens. has_comma n"
    by (simp add: filter_empty_conv)
  with False show ?thesis
    by (simp add: bal_currentBalance_def find_rev_last)
qed

lemma bal_line_Some:
  assumes "bal_parseTransactionLine_with kw line date allLines i pbo = Some t"
  shows "re_match_all (RE num_token) (searchText allLines i) \<noteq> []
    \<and> (\<exists>pb. pbo = Some pb \<and>
          t = bal_transaction (kw line) line date (bal_merchant allLines i) pb
                (bal_currentBalance (re_match_all (RE num_token) (searchText allLines i))))"
  using assms
  by (auto simp add: bal_parseTransactionLine_with_def Let_def split: if_splits option.splits)

lemma bal_transaction_fields:
  "b_balance (bal_transaction c line date m pb cb) = cb"
  "b_amount (bal_transaction c line date m pb cb) = pb - cb"
  "b_type (bal_transaction c line date m pb cb) = (if pb - cb < 0 then ''credit'' else ''debit'')"
  by (simp_all add: bal_transaction_def Let_def)

lemma chain_snoc:
  "chain B (ts @ [t]) =
     (chain B ts \<and> b_amount t = (if ts = [] then B else b_balance (last ts)) - b_balance t)"
  by (induction ts arbitrary: B) auto

text \<open>
  One pass of the loop either leaves previous balance and transactions as they are, or
  pushes one transaction read at this index against the previous balance and makes its
  balance the previous balance.
\<close>

lemma bal_step_cases:
  "(previousBalance (bal_step year bank lines i st) = previousBalance st
      \<and> transactions (bal_step year bank lines i st) = transactions st)
   \<or> (\<exists>pb date. previousBalance st = Some pb
        \<and> re_match_all (RE num_token) (searchText lines i) \<noteq> []
        \<and> transactions (bal_step year bank lines i st) = transactions st @
            [bal_transaction (re_test bal_isCredit (trim (lines ! i))) (trim (lines ! i)) date
               (bal_merchant lines i) pb
               (bal_currentBalance (re_match_all (RE num_token) (searchText lines i)))]
        \<and> previousBalance (bal_step year bank lines i st) =
            Some (bal_currentBalance (re_match_all (RE num_token) (searchText lines i))))"
proof (cases "bal_skip (trim (lines ! i))")
  case True
  then show ?thesis
    by (simp add: bal_step_def)
next
  case False
  define st1 where "st1 = (case bal_dateMatch bank (trim (lines ! i)) year of
      None \<Rightarrow> st | Some d \<Rightarrow> st\<lparr>currentDate := Some d\<rparr>)"
  have st1: "previousBalance st1 = previousBalance st" "transactions st1 = transactions st"
    by (simp_all add: st1_def split: option.splits)
  show ?thesis
  proof (cases "currentDate st1")
    case None
    with False st1 show ?thesis
      by (simp add: bal_step_def Let_def st1_def [symmetric])
  next
    case (Some date)
    show ?thesis
    proof (cases "bal_parseTransactionLine (trim (lines ! i)) date lines i (previousBalance st1)")
      case None
      with False Some st1 show ?thesis
        by (simp add: bal_step_def Let_def st1_def [symmetric])
    next
      case (Some t)
      then have "bal_parseTransactionLine_with (re_test bal_isCredit) (trim (lines ! i)) date lines i
          (previousBalance st1) = Some t"
        by (simp add: bal_parseTransactionLine_def)
      from bal_line_Some [OF this] st1 obtain pb where
        tok: "re_match_all (RE num_token) (searchText lines i) \<noteq> []" and
        pb: "previousBalance st = Some pb" and
        t: "t = bal_transaction (re_test bal_isCredit (trim (lines ! i))) (trim (lines ! i)) date
              (bal_merchant lines i) pb
              (bal_currentBalance (re_match_all (RE num_token) (searchText lines i)))"
        by auto
      from False \<open>currentDate st1 = Some date\<close> Some st1
      have "transactions (bal_step year bank lines i st) = transactions st @ [t]"
        and "previousBalance (bal_step year bank lines i st) = Some (b_balance t)"
        by (simp_all add: bal_step_def Let_def st1_def [symmetric])
      with tok pb t show ?thesis
        by (auto simp add: bal_transaction_fields)
    qed
  qed
qed

text \<open>
  The invariant of the loop. With an opening balance \<open>B0\<close>: the transactions pushed so far
  form a chain from \<open>B0\<close>, the previous balance is the balance of the last of them (\<open>B0\<close>
  when there is none), each was read at some index from the tokens of its window, and
  its type follows the sign of its amount. Without an opening balance nothing is pushed.
\<close>

lemma bal_step_inv:
  assumes "i < length lines"
    and "chain B0 (transactions st)"
    and "previousBalance st = Some (if transactions st = [] then B0 else b_balance (last (transactions st)))"
    and "\<forall>t \<in> set (transactions st). from_window lines t
           \<and> b_type t = (if b_amount t < 0 then ''credit'' else ''debit'')"
  shows "chain B0 (transactions (bal_step year bank lines i st))
    \<and> previousBalance (bal_step year bank lines i st) =
        Some (if transactions (bal_step year bank lines i st) = [] then B0
              else b_balance (last (transactions (bal_step year bank lines i st))))
    \<and> (\<forall>t \<in> set (transactions (bal_step year bank lines i st)). from_window lines t
           \<and> b_type t = (if b_amount t < 0 then ''credit'' else ''debit''))"
  using bal_step_cases [of year bank lines i st]
proof (elim disjE exE conjE)
  assume "previousBalance (bal_step year bank lines i st) = previousBalance st"
    and "transactions (bal_step year bank lines i st) = transactions st"
  with assms show ?thesis
    by simp
next
  fix pb date
  let ?cb = "bal_currentBalance (re_match_all (RE num_token) (searchText lines i))"
  let ?t = "bal_transaction (re_test bal_isCredit (trim (lines ! i))) (trim (lines ! i)) date
      (bal_merchant lines i) pb ?cb"
  assume pb: "previousBalance st = Some pb"
    and tok: "re_match_all (RE num_token) (searchText lines i) \<noteq> []"
    and ts: "transactions (bal_step year bank lines i st) = transactions st @ [?t]"
    and pb': "previousBalance (bal_step year bank lines i st) = Some ?cb"
  from assms(1) tok have "from_window lines ?t"
    by (auto simp add: from_window_def bal_transaction_fields)
  with assms pb ts pb' show ?thesis
    by (auto simp add: chain_snoc bal_transaction_fields)
qed

lemma bal_loop_inv:
  assumes "chain B0 (transactions st)"
    and "previousBalance st = Some (if transactions st = [] then B0 else b_balance (last (transactions st)))"
    and "\<forall>t \<in> set (transactions st). from_window lines t
           \<and> b_type t = (if b_amount t < 0 then ''credit'' else ''debit'')"
  shows "chain B0 (transactions (bal_loop year bank lines i st))
    \<and> (\<forall>t \<in> set (transactions (bal_loop year bank lines i st)). from_window lines t
           \<and> b_type t = (if b_amount t < 0 then ''credit'' else ''debit''))"
  using assms
proof (induction year bank lines i st rule: bal_loop.induct)
  case (1 year bank lines i st)
  show ?case
  proof (cases "i < length lines")
    case True
    from bal_step_inv [OF True "1.prems"]
    have "chain B0 (transactions (bal_loop year bank lines (Suc i) (bal_step year bank lines i st)))
      \<and> (\<forall>t \<in> set (transactions (bal_loop year bank lines (Suc i) (bal_step year bank lines i st))).
            from_window lines t \<and> b_type t = (if b_amount t < 0 then ''credit'' else ''debit''))"
      by (intro "1.IH" [OF True]) simp_all
    with True show ?thesis
      by (subst (1 2) bal_loop.simps) simp
  next
    case False
    with "1.prems" show ?thesis
      by (subst (1 2) bal_loop.simps) simp
  qed
qed

lemma bal_loop_no_opening:
  assumes "previousBalance st = None" and "transactions st = []"
  shows "transactions (bal_loop year bank lines i st) = []"
  using assms
proof (induction year bank lines i st rule: bal_loop.induct)
  case (1 year bank lines i st)
  show ?case
  proof (cases "i < length lines")
    case True
    from bal_step_cases [of year bank lines i st] "1.prems"
    have "previousBalance (bal_step year bank lines i st) = None"
      and "transactions (bal_step year bank lines i st) = []"
      by auto
    with True "1.IH" show ?thesis
      by (subst bal_loop.simps) simp
  next
    case False
    with "1.prems" show ?thesis
      by (subst bal_loop.simps) simp
  qed
qed

text \<open>
  The loop is the passes one after the other; what a pass has pushed stays. A pass pushes
  a transaction exactly when the line at its index is a transaction line with a token in
  its window and a previous balance.
\<close>

lemma bal_loop_end: "bal_loop year bank lines (length lines) st = st"
  by (subst bal_loop.simps) simp

lemma bal_loop_before:
  "i \<le> length lines \<Longrightarrow>
     bal_loop year bank lines 0 st0 = bal_loop year bank lines i (bal_before year bank lines st0 i)"
proof (induction i)
  case 0
  show ?case
    by simp
next
  case (Suc i)
  then have "bal_loop year bank lines 0 st0 = bal_loop year bank lines i (bal_before year bank lines st0 i)"
    by simp
  also from Suc.prems have "\<dots> = bal_loop year bank lines (Suc i) (bal_before year bank lines st0 (Suc i))"
    by (subst bal_loop.simps) simp
  finally show ?case .
qed

lemma bal_loop_prefix:
  "\<exists>rest. transactions (bal_loop year bank lines i st) = transactions st @ rest"
proof (induction year bank lines i st rule: bal_loop.induct)
  case (1 year bank lines i st)
  show ?case
  proof (cases "i < length lines")
    case True
    from "1.IH" [OF True] obtain rest where
      "transactions (bal_loop year bank lines (Suc i) (bal_step year bank lines i st))
         = transactions (bal_step year bank lines i st) @ rest"
      by blast
    moreover from bal_step_cases [of year bank lines i st]
    obtain r where "transactions (bal_step year bank lines i st) = transactions st @ r"
      by auto
    ultimately show ?thesis
      using True by (subst bal_loop.simps) simp
  next
    case False
    then show ?thesis
      by (subst bal_loop.simps) simp
  qed
qed

lemma take_drop_nth:
  "take n (drop i xs) = map (\<lambda>j. xs ! j) [i ..< min (i + n) (length xs)]"
  by (rule nth_equalityI) auto

lemma str_includes_char: "str_includes s [c] = (c \<in> set s)"
  by (induction s) (auto simp add: startsWith_def)

lemma bal_step_emit:
  assumes "\<not> bal_skip (trim (lines ! i))"
    and "bal_dateMatch bank (trim (lines ! i)) year \<noteq> None \<or> currentDate st \<noteq> None"
    and "\<not> re_test bal_just_balance (trim (lines ! i))"
    and "\<not> str_includes (trim (lines ! i)) ''CORRECTION''"
    and "list_ex (\<lambda>p. re_test p (trim (lines ! i))) bal_patterns"
    and "re_match_all (RE num_token) (searchText lines i) \<noteq> []"
    and "previousBalance st = Some pb"
  shows "\<exists>t. transactions (bal_step year bank lines i st) = transactions st @ [t]
      \<and> b_balance t = bal_currentBalance (re_match_all (RE num_token) (searchText lines i))
      \<and> b_amount t = pb - b_balance t
      \<and> b_description t = trim (take 50 (trim (lines ! i)))
      \<and> previousBalance (bal_step year bank lines i st) = Some (b_balance t)"
proof -
  define st1 where "st1 = (case bal_dateMatch bank (trim (lines ! i)) year of
      None \<Rightarrow> st | Some d \<Rightarrow> st\<lparr>currentDate := Some d\<rparr>)"
  have st1: "previousBalance st1 = previousBalance st" "transactions st1 = transactions st"
    by (simp_all add: st1_def split: option.splits)
  from assms(2) have "currentDate st1 \<noteq> None"
    by (cases "bal_dateMatch bank (trim (lines ! i)) year") (auto simp add: st1_def)
  then obtain date where date: "currentDate st1 = Some date"
    by auto
  let ?t = "bal_transaction (re_test bal_isCredit (trim (lines ! i))) (trim (lines ! i)) date
      (bal_merchant lines i) pb (bal_currentBalance (re_match_all (RE num_token) (searchText lines i)))"
  from assms st1 have "bal_parseTransactionLine (trim (lines ! i)) date lines i (previousBalance st1) = Some ?t"
    by (simp add: bal_parseTransactionLine_def bal_parseTransactionLine_with_def Let_def)
  with assms(1) date st1
  have "transactions (bal_step year bank lines i st) = transactions st @ [?t]"
    and "previousBalance (bal_step year bank lines i st) = Some (b_balance ?t)"
    by (simp_all add: bal_step_def Let_def st1_def [symmetric])
  then show ?thesis
    by (intro exI [of _ ?t]) (simp add: bal_transaction_def Let_def)
qed

lemma bal_step_idle:
  assumes "\<not> (\<not> bal_skip (trim (lines ! i))
      \<and> (bal_dateMatch bank (trim (lines ! i)) year \<noteq> None \<or> currentDate st \<noteq> None)
      \<and> \<not> re_test bal_just_balance (trim (lines ! i))
      \<and> \<not> str_includes (trim (lines ! i)) ''CORRECTION''
      \<and> list_ex (\<lambda>p. re_test p (trim (lines ! i))) bal_patterns
      \<and> re_match_all (RE num_token) (searchText lines i) \<noteq> []
      \<and> previousBalance st \<noteq> None)"
  shows "transactions (bal_step year bank lines i st) = transactions st
      \<and> previousBalance (bal_step year bank lines i st) = previousBalance st"
proof (cases "bal_skip (trim (lines ! i))")
  case True
  then show ?thesis
    by (simp add: bal_step_def)
next
  case False
  define st1 where "st1 = (case bal_dateMatch bank (trim (lines ! i)) year of
      None \<Rightarrow> st | Some d \<Rightarrow> st\<lparr>currentDate := Some d\<rparr>)"
  have st1: "previousBalance st1 = previousBalance st" "transactions st1 = transactions st"
    by (simp_all add: st1_def split: option.splits)
  show ?thesis
  proof (cases "currentDate st1")
    case None
    with False st1 show ?thesis
      by (simp add: bal_step_def Let_def st1_def [symmetric])
  next
    case (Some date)
    then have "bal_dateMatch bank (trim (lines ! i)) year \<noteq> None \<or> currentDate st \<noteq> None"
      by (auto simp add: st1_def split: option.splits)
    with assms False st1
    have "bal_parseTransactionLine (trim (lines ! i)) date lines i (previousBalance st1) = None"
      by (auto simp add: bal_parseTransactionLine_def bal_parseTransactionLine_with_def Let_def
          split: option.splits)
    with False Some st1 show ?thesis
      by (simp add: bal_step_def Let_def st1_def [symmetric])
  qed
qed

lemma has_comma_set: "has_comma = (\<lambda>n. CHR '','' \<in> set n)"
  by (rule ext) (simp add: has_comma_def str_includes_char)

lemma searchText_window:
  "searchText lines i = join '' '' (map (\<lambda>j. lines ! j) [i ..< min (i + 3) (length lines)])"
  by (simp add: searchText_def take_drop_nth)







section \<open>Facts about the matcher\<close>

text \<open>
  Whether a matcher fails depends on its continuation only through the states on which
  the continuation fails; so a capturing group matches where its body does.
\<close>

lemma rep_None_cong:
  assumes "\<And>st k k'. (\<And>s. k s = None \<longleftrightarrow> k' s = None)
      \<Longrightarrow> (step st k = None \<longleftrightarrow> step st k' = None)"
    and "\<And>s. k s = None \<longleftrightarrow> k' s = None"
  shows "rep mn mx greedy step st k = None \<longleftrightarrow> rep mn mx greedy step st k' = None"
  using assms
proof (induction mn mx greedy step st k arbitrary: k' rule: rep.induct)
  case (1 mn mx greedy step st k)
  note step = "1.prems"(1) and k = "1.prems"(2)
  let ?c = "\<lambda>k st'. if length (m_rest st') < length (m_rest st)
      then rep (mn - 1) (map_option (\<lambda>n. n - 1) mx) greedy step st' k else None"
  have more: "step st (?c k) = None \<longleftrightarrow> step st (?c k') = None" if "mx \<noteq> Some 0"
  proof (rule step)
    fix s
    show "?c k s = None \<longleftrightarrow> ?c k' s = None"
    proof (cases "length (m_rest s) < length (m_rest st)")
      case True
      from "1.IH" [OF that True step k] True show ?thesis
        by simp
    next
      case False
      then show ?thesis
        by simp
    qed
  qed
  show ?case
  proof (cases "mx = Some 0")
    case True
    with k [of st] show ?thesis
      by (subst (1 2) rep.simps) (auto simp add: Let_def split: option.splits)
  next
    case False
    with more k [of st] show ?thesis
      by (subst (1 2) rep.simps) (auto simp add: Let_def split: option.splits)
  qed
qed

lemma rm_None_cong:
  "(\<And>s. k s = None \<longleftrightarrow> k' s = None) \<Longrightarrow> (rm r ic ml st k = None \<longleftrightarrow> rm r ic ml st k' = None)"
proof (induction r arbitrary: st k k')
  case (Atom neg cs)
  then show ?case
    by (simp split: list.splits)
next
  case (Seq a b)
  show ?case
    by (simp only: rm.simps) (rule Seq.IH(1), rule Seq.IH(2), rule Seq.prems)
next
  case (Alt a b)
  from Alt.IH(1) [of k k' st, OF Alt.prems] Alt.IH(2) [of k k' st, OF Alt.prems] show ?case
    by (auto split: option.splits)
next
  case (Rep mn mx greedy a)
  show ?case
    by (simp only: rm.simps) (rule rep_None_cong, rule Rep.IH, assumption, rule Rep.prems)
next
  case (Grp n a)
  show ?case
    by (simp only: rm.simps) (rule Grp.IH, rule Grp.prems)
next
  case (Ahead a)
  then show ?case
    by (simp split: option.splits)
qed simp_all

lemma re_test_Grp: "re_test (RE (Grp n r)) s = re_test (RE r) s"
proof -
  have exec: "re_exec_at (RE (Grp n r)) p s = None \<longleftrightarrow> re_exec_at (RE r) p s = None" for p s
    by (simp add: re_exec_at_def RE_def) (rule rm_None_cong, simp)
  have "re_search (RE (Grp n r)) p s = None \<longleftrightarrow> re_search (RE r) p s = None" for p
  proof (induction s arbitrary: p)
    case Nil
    from exec [of p "[]"] show ?case
      by simp
  next
    case (Cons c s)
    from exec [of p "c # s"] Cons [of "Some c"] show ?case
      by (auto split: option.splits)
  qed
  then show ?thesis
    by (simp add: re_test_def)
qed

lemma re_match_all_Nil: "re_match_all r s = [] \<longleftrightarrow> \<not> re_test r s"
  unfolding re_match_all_def re_test_def
  by (subst re_scan.simps) (auto split: option.splits list.splits prod.splits)

section \<open>Properties of issuer detection\<close>

text \<open>
  Claim C5. \<open>detectBank\<close> depends only on the first 500 code units of its input; its result
  is the first profile, in the order rbc, cibc, td, scotiabank, bmo, whose substring
  predicate holds of that prefix; and it throws exactly when no profile's predicate holds.
\<close>

theorem detectBank_prefix_priority:
  "(take 500 t1 = take 500 t2 \<longrightarrow> detectBank t1 = detectBank t2)
   \<and> detectBank t = (case first_match (take 500 t) of
                       None \<Rightarrow> Inl UnrecognizedIssuer | Some b \<Rightarrow> Inr b)
   \<and> (detectBank t = Inl UnrecognizedIssuer
        \<longleftrightarrow> (\<forall>p \<in> set profiles. \<not> snd p (take 500 t)))"
  by (simp add: detectBank_def first_match_def profiles_def Let_def)

theorem detectBank_prefix_priority_witness:
  "take 500 (replicate 500 (CHR ''x'') @ ''Royal Bank of Canada'') = take 500 (replicate 500 (CHR ''x''))
   \<and> detectBank (replicate 500 (CHR ''x'') @ ''Royal Bank of Canada'') = detectBank (replicate 500 (CHR ''x''))
   \<and> detectBank ''Your RBC account statement by CIBC'' = Inr ''rbc''
   \<and> list_all (\<lambda>p. \<not> snd p (take 500 ''hello'')) profiles
   \<and> detectBank ''hello'' = Inl UnrecognizedIssuer"
  using detectBank_prefix_priority [of "replicate 500 (CHR ''x'') @ ''Royal Bank of Canada''"
      "replicate 500 (CHR ''x'')" "''Your RBC account statement by CIBC''"]
    detectBank_prefix_priority [of "''hello''" "''hello''" "''hello''"]
  by (simp add: first_match_def profiles_def is_rbc_def is_cibc_def is_td_def
      is_scotiabank_def is_bmo_def startsWith_def)

section \<open>Properties of redaction\<close>

lemma re_replace_all_unmatched:
  assumes "\<not> re_test r s"
  shows "re_replace_all r f s = s"
proof -
  from assms have "re_search r None s = None"
    by (cases "re_search r None s") (simp_all add: re_test_def)
  then have "re_scan r None s = ([], s)"
    by (subst re_scan.simps) simp
  then show ?thesis
    by (simp add: re_replace_all_def)
qed

lemma foldl_apply_rule_unmatched:
  "list_all (\<lambda>r. \<not> re_test (rx r) text) rs \<Longrightarrow> foldl apply_rule text rs = text"
  by (induction rs) (simp_all add: apply_rule_def re_replace_all_unmatched)

text \<open>
  Claim C4. Redaction is a function from strings to strings: each of its steps (a
  replacement by a pattern, and \<open>includes\<close>, \<open>trim\<close>, \<open>split\<close> and \<open>length\<close> inside the
  replacement functions) is defined on every string, and the model has no error value
  because the source has no place that raises. On an input that none of the patterns of
  a scrubber matches, the scrubber returns the input: an unmatched pattern leaves the text
  as it is, so the next pattern sees the same text.
\<close>

theorem scrub_unmatched_noop:
  "(list_all (\<lambda>r. \<not> re_test (rx r) text) rbc_rules \<longrightarrow> scrub_rbc text = text)
   \<and> (list_all (\<lambda>r. \<not> re_test (rx r) text) cibc_rules \<longrightarrow> scrub_cibc text = text)"
  by (simp add: scrub_rbc_def scrub_cibc_def foldl_apply_rule_unmatched)

theorem scrub_unmatched_noop_witness:
  "list_all (\<lambda>r. \<not> re_test (rx r) ''Nov 3 VISA DEBIT RETAIL PURCHASE 12.00'') rbc_rules
   \<and> scrub_rbc ''Nov 3 VISA DEBIT RETAIL PURCHASE 12.00'' = ''Nov 3 VISA DEBIT RETAIL PURCHASE 12.00''
   \<and> list_all (\<lambda>r. \<not> re_test (rx r) ''Nov 3 VISA DEBIT RETAIL PURCHASE 12.00'') cibc_rules
   \<and> scrub_cibc ''Nov 3 VISA DEBIT RETAIL PURCHASE 12.00'' = ''Nov 3 VISA DEBIT RETAIL PURCHASE 12.00''"
proof -
  have r: "list_all (\<lambda>r. \<not> re_test (rx r) ''Nov 3 VISA DEBIT RETAIL PURCHASE 12.00'') rbc_rules"
    by (simp only: eval_base re_eval str_eval scrub_eval cong: eval_cong)
  have c: "list_all (\<lambda>r. \<not> re_test (rx r) ''Nov 3 VISA DEBIT RETAIL PURCHASE 12.00'') cibc_rules"
    by (simp only: eval_base re_eval str_eval scrub_eval cong: eval_cong)
  from r c scrub_unmatched_noop [of "''Nov 3 VISA DEBIT RETAIL PURCHASE 12.00''"]
  show ?thesis
    by blast
qed

text \<open>
  Claim C3, as stated, fails. In both passes the name-stripping rule comes before the
  e-transfer rule: third and eighth of the fourteen RBC rules, first and fourth of the eight
  CIBC rules. On the RBC text below the e-transfer rule alone would collapse recipient and
  reference, but in the pass the name rule has already rewritten the recipient's line, the
  e-transfer rule no longer matches, and the reference code stays in the output.
\<close>

theorem etransfer_before_name_counterexample:
  "rule_pos (rx rbc_etransfer) rbc_rules = Some 7
   \<and> rule_pos (rx rbc_name) rbc_rules = Some 2
   \<and> rule_pos (rx cibc_etransfer) cibc_rules = Some 3
   \<and> rule_pos (rx cibc_name) cibc_rules = Some 0
   \<and> apply_rule ''e-Transfer sent\<newline>JOHN SMITH\<newline>ABC123'' rbc_etransfer
       = ''e-Transfer sent [RECIPIENT] [REF]''
   \<and> scrub_rbc ''e-Transfer sent\<newline>JOHN SMITH\<newline>ABC123''
       = ''e-Transfer sent\<newline>[NAME REDACTED]\<newline>ABC123''"
proof -
  have "rule_pos (rx rbc_etransfer) rbc_rules = Some 7"
    and "rule_pos (rx rbc_name) rbc_rules = Some 2"
    and "rule_pos (rx cibc_etransfer) cibc_rules = Some 3"
    and "rule_pos (rx cibc_name) cibc_rules = Some 0"
    by (simp_all add: scrub_eval Seqs_def Lit_def Cls_def NCls_def Plus_def Star_def Opt_def
        PlusLazy_def Times_def AtLeast_def RE_def RE_i_def RE_m_def RE_mi_def)
  moreover have "apply_rule ''e-Transfer sent\<newline>JOHN SMITH\<newline>ABC123'' rbc_etransfer
       = ''e-Transfer sent [RECIPIENT] [REF]''"
    by (simp only: eval_base re_eval str_eval scrub_eval cong: eval_cong)
  moreover have "scrub_rbc ''e-Transfer sent\<newline>JOHN SMITH\<newline>ABC123''
       = ''e-Transfer sent\<newline>[NAME REDACTED]\<newline>ABC123''"
    by (simp only: eval_base re_eval str_eval scrub_eval cong: eval_cong)
  ultimately show ?thesis
    by blast
qed

text \<open>
  Claim C3, amended. In both passes the all-caps name-stripping rule is applied before the
  e-transfer rule, and the e-transfer rule works on the text that the name-stripping
  rule and the rules between them have left.
\<close>

theorem name_before_etransfer:
  "scrub_rbc text =
     foldl apply_rule
       (apply_rule
          (foldl apply_rule
             (apply_rule (foldl apply_rule text [rbc_account_number, rbc_standalone_account])
                rbc_name)
             [rbc_unit, rbc_street, rbc_city_postal, rbc_branch_address])
          rbc_etransfer)
       [rbc_ref_code, rbc_txn_ref, rbc_doc_ref, rbc_barcode, rbc_phone, blank_lines]
   \<and> scrub_cibc text =
     foldl apply_rule
       (apply_rule
          (foldl apply_rule (apply_rule text cibc_name) [cibc_account_number, cibc_branch_transit])
          cibc_etransfer)
       [cibc_merchant_ref, cibc_cad_conversion, cibc_preauth_id, blank_lines]"
  by (simp add: scrub_rbc_def scrub_cibc_def rbc_rules_def cibc_rules_def)

section \<open>Properties of the balance-reconciliation extractor\<close>

lemma bal_parseTransactions_inv:
  "(case bal_openingBalance text of
      None \<Rightarrow> bal_parseTransactions text year bank = []
    | Some B0 \<Rightarrow> chain B0 (bal_parseTransactions text year bank))
   \<and> (\<forall>t \<in> set (bal_parseTransactions text year bank).
         from_window (split_char CHR ''\<newline>'' text) t
         \<and> b_type t = (if b_amount t < 0 then ''credit'' else ''debit''))"
proof (cases "bal_openingBalance text")
  case None
  then show ?thesis
    by (simp add: bal_parseTransactions_def bal_loop_no_opening)
next
  case (Some B0)
  let ?st = "\<lparr>currentDate = None, previousBalance = Some B0, transactions = []\<rparr>"
  have "chain B0 (transactions (bal_loop year bank (split_char CHR ''\<newline>'' text) 0 ?st))
    \<and> (\<forall>t \<in> set (transactions (bal_loop year bank (split_char CHR ''\<newline>'' text) 0 ?st)).
          from_window (split_char CHR ''\<newline>'' text) t
          \<and> b_type t = (if b_amount t < 0 then ''credit'' else ''debit''))"
    by (rule bal_loop_inv) simp_all
  with Some show ?thesis
    by (simp add: bal_parseTransactions_def)
qed

text \<open>
  Claim C1. Let the loop of \<open>parseTransactions\<close> reach the line at index \<open>i\<close> in the state
  \<open>st\<close>, and let \<open>tokens\<close> be the decimal tokens of that line and of the up to two lines
  after it, joined by spaces, from left to right. When the line is a transaction line
  (not skipped, dated, not a bare balance, without \<open>CORRECTION\<close>, matching a transaction
  pattern), has a token and there is a previous balance, the pass at \<open>i\<close> pushes exactly one
  transaction: its balance is the value of the rightmost token with a comma, or the
  largest value when no token has a comma; its amount is the previous balance minus that
  balance; and that balance is the previous balance from then on. In every other case
  the pass pushes nothing and keeps the previous balance. What the pass has pushed is
  part of the result of the extractor, which is what the passes over all the lines have
  pushed; so the amounts of the result chain from the opening balance through the
  balances emitted (\<open>chain\<close>), and without an opening balance nothing is emitted. Values
  are in cents and the difference is the exact one, which the source rounds to a double.
\<close>

theorem balance_reconciliation:
  assumes "lines = split_char CHR ''\<newline>'' text"
    and "i < length lines"
    and "st = bal_before year bank lines
           \<lparr>currentDate = None, previousBalance = bal_openingBalance text, transactions = []\<rparr> i"
    and "st' = bal_step year bank lines i st"
    and "line = trim (lines ! i)"
    and "tokens = re_match_all (RE num_token)
           (join '' '' (map (\<lambda>j. lines ! j) [i ..< min (i + 3) (length lines)]))"
    and "new_balance =
           (if \<exists>n \<in> set tokens. CHR '','' \<in> set n
            then parseFloat_cents (replace_commas (last (filter (\<lambda>n. CHR '','' \<in> set n) tokens)))
            else Max (set (map (\<lambda>n. parseFloat_cents (replace_commas n)) tokens)))"
  shows "(if \<not> bal_skip line
             \<and> (bal_dateMatch bank line year \<noteq> None \<or> currentDate st \<noteq> None)
             \<and> \<not> re_test bal_just_balance line
             \<and> \<not> str_includes line ''CORRECTION''
             \<and> list_ex (\<lambda>p. re_test p line) bal_patterns
             \<and> tokens \<noteq> []
             \<and> previousBalance st \<noteq> None
          then \<exists>pb t. previousBalance st = Some pb
                 \<and> transactions st' = transactions st @ [t]
                 \<and> b_balance t = new_balance
                 \<and> b_amount t = pb - new_balance
                 \<and> b_description t = trim (take 50 line)
                 \<and> previousBalance st' = Some new_balance
          else transactions st' = transactions st \<and> previousBalance st' = previousBalance st)
     \<and> (\<exists>rest. bal_parseTransactions text year bank = transactions st' @ rest)
     \<and> bal_parseTransactions text year bank = transactions (bal_before year bank lines
           \<lparr>currentDate = None, previousBalance = bal_openingBalance text, transactions = []\<rparr>
           (length lines))
     \<and> (case bal_openingBalance text of
          None \<Rightarrow> bal_parseTransactions text year bank = []
        | Some B0 \<Rightarrow> chain B0 (bal_parseTransactions text year bank))"
proof (intro conjI)
  let ?init = "\<lparr>currentDate = None, previousBalance = bal_openingBalance text, transactions = []\<rparr>"
  let ?cond = "\<not> bal_skip line
             \<and> (bal_dateMatch bank line year \<noteq> None \<or> currentDate st \<noteq> None)
             \<and> \<not> re_test bal_just_balance line
             \<and> \<not> str_includes line ''CORRECTION''
             \<and> list_ex (\<lambda>p. re_test p line) bal_patterns
             \<and> tokens \<noteq> []
             \<and> previousBalance st \<noteq> None"
  have tokens: "tokens = re_match_all (RE num_token) (searchText lines i)"
    using assms(6) by (simp only: searchText_window)
  have nb: "bal_currentBalance tokens = new_balance" if "tokens \<noteq> []"
    using bal_currentBalance_spec [OF that] assms(7) by (simp add: has_comma_set)
  show "if ?cond
        then \<exists>pb t. previousBalance st = Some pb
                 \<and> transactions st' = transactions st @ [t]
                 \<and> b_balance t = new_balance
                 \<and> b_amount t = pb - new_balance
                 \<and> b_description t = trim (take 50 line)
                 \<and> previousBalance st' = Some new_balance
        else transactions st' = transactions st \<and> previousBalance st' = previousBalance st"
  proof (cases ?cond)
    case True
    then obtain pb where pb: "previousBalance st = Some pb"
      by auto
    from True pb tokens assms(5)
    have "\<exists>t. transactions (bal_step year bank lines i st) = transactions st @ [t]
      \<and> b_balance t = bal_currentBalance (re_match_all (RE num_token) (searchText lines i))
      \<and> b_amount t = pb - b_balance t
      \<and> b_description t = trim (take 50 (trim (lines ! i)))
      \<and> previousBalance (bal_step year bank lines i st) = Some (b_balance t)"
      by (intro bal_step_emit) simp_all
    with True pb tokens assms(4,5) nb show ?thesis
      by auto
  next
    case False
    with tokens assms(5)
    have "transactions (bal_step year bank lines i st) = transactions st
      \<and> previousBalance (bal_step year bank lines i st) = previousBalance st"
      by (intro bal_step_idle) simp
    with False assms(4) show ?thesis
      by simp
  qed
  from assms(2) have "Suc i \<le> length lines"
    by simp
  from bal_loop_before [OF this, of year bank ?init] assms(1,3,4)
  have "bal_parseTransactions text year bank = transactions (bal_loop year bank lines (Suc i) st')"
    by (simp add: bal_parseTransactions_def)
  with bal_loop_prefix [of year bank lines "Suc i" st']
  show "\<exists>rest. bal_parseTransactions text year bank = transactions st' @ rest"
    by simp
  from bal_loop_before [of "length lines" lines year bank ?init] assms(1)
  show "bal_parseTransactions text year bank = transactions (bal_before year bank lines ?init (length lines))"
    by (simp add: bal_parseTransactions_def bal_loop_end)
  from bal_parseTransactions_inv [of "text" year bank]
  show "case bal_openingBalance text of
          None \<Rightarrow> bal_parseTransactions text year bank = []
        | Some B0 \<Rightarrow> chain B0 (bal_parseTransactions text year bank)"
    by blast
qed

theorem balance_reconciliation_witness:
  "split_char CHR ''\<newline>'' ''Opening balance $1,114.75\<newline>Nov 3 VISA DEBIT PURCHASE\<newline>UBER 100.001,014.75''
     = [''Opening balance $1,114.75'', ''Nov 3 VISA DEBIT PURCHASE'', ''UBER 100.001,014.75'']
   \<and> bal_openingBalance ''Opening balance $1,114.75\<newline>Nov 3 VISA DEBIT PURCHASE\<newline>UBER 100.001,014.75''
     = Some 111475
   \<and> re_match_all (RE num_token) ''Nov 3 VISA DEBIT PURCHASE UBER 100.001,014.75''
     = [''100.00'', ''1,014.75'']
   \<and> map b_balance (transactions (bal_step ''2025'' ''cibc''
        [''Opening balance $1,114.75'', ''Nov 3 VISA DEBIT PURCHASE'', ''UBER 100.001,014.75''] (Suc 0)
        \<lparr>currentDate = None, previousBalance = Some 111475, transactions = []\<rparr>)) = [101475]
   \<and> map b_amount (transactions (bal_step ''2025'' ''cibc''
        [''Opening balance $1,114.75'', ''Nov 3 VISA DEBIT PURCHASE'', ''UBER 100.001,014.75''] (Suc 0)
        \<lparr>currentDate = None, previousBalance = Some 111475, transactions = []\<rparr>)) = [10000]
   \<and> previousBalance (bal_step ''2025'' ''cibc''
        [''Opening balance $1,114.75'', ''Nov 3 VISA DEBIT PURCHASE'', ''UBER 100.001,014.75''] (Suc 0)
        \<lparr>currentDate = None, previousBalance = Some 111475, transactions = []\<rparr>) = Some 101475
   \<and> map b_amount (bal_parseTransactions
        ''Opening balance $1,114.75\<newline>Nov 3 VISA DEBIT PURCHASE\<newline>UBER 100.001,014.75''
        ''2025'' ''cibc'') = [10000]"
proof -
  let ?text = "''Opening balance $1,114.75\<newline>Nov 3 VISA DEBIT PURCHASE\<newline>UBER 100.001,014.75''"
  let ?lines = "[''Opening balance $1,114.75'', ''Nov 3 VISA DEBIT PURCHASE'', ''UBER 100.001,014.75'']"
  let ?st = "\<lparr>currentDate = None, previousBalance = Some 111475, transactions = []\<rparr>"
  let ?tokens = "[''100.00'', ''1,014.75'']"
  have lines: "split_char CHR ''\<newline>'' ?text = ?lines"
    by (simp only: eval_base str_eval cong: eval_cong)
  have o: "bal_openingBalance ?text = Some 111475"
    by (simp only: eval_base re_eval str_eval bal_eval cong: eval_cong)
  have st: "bal_before ''2025'' ''cibc'' ?lines
      \<lparr>currentDate = None, previousBalance = bal_openingBalance ?text, transactions = []\<rparr> (Suc 0) = ?st"
    unfolding o
    by (simp only: eval_base re_eval str_eval bal_eval bal_before.simps mem_ws cong: eval_cong)
  have window: "join '' '' (map (\<lambda>j. ?lines ! j) [Suc 0 ..< min (Suc 0 + 3) (length ?lines)])
      = ''Nov 3 VISA DEBIT PURCHASE UBER 100.001,014.75''"
    by (simp add: upt_rec)
  have tokens: "re_match_all (RE num_token) ''Nov 3 VISA DEBIT PURCHASE UBER 100.001,014.75'' = ?tokens"
    by (simp only: eval_base re_eval str_eval bal_eval cong: eval_cong)
  have nb: "(101475::int) =
           (if \<exists>n \<in> set ?tokens. CHR '','' \<in> set n
            then parseFloat_cents (replace_commas (last (filter (\<lambda>n. CHR '','' \<in> set n) ?tokens)))
            else Max (set (map (\<lambda>n. parseFloat_cents (replace_commas n)) ?tokens)))"
    by (simp add: cents_eval digit_val_table replace_commas_def digit_def)
  have line: "trim (?lines ! Suc 0) = ''Nov 3 VISA DEBIT PURCHASE''"
    by (simp only: eval_base str_eval mem_ws cong: eval_cong)
  have c1: "\<not> bal_skip ''Nov 3 VISA DEBIT PURCHASE''"
    by (simp only: eval_base re_eval str_eval bal_eval cong: eval_cong)
  have c2: "bal_dateMatch ''cibc'' ''Nov 3 VISA DEBIT PURCHASE'' ''2025'' \<noteq> None"
    by (simp only: eval_base re_eval str_eval bal_eval mem_ws cong: eval_cong)
  have c3: "\<not> re_test bal_just_balance ''Nov 3 VISA DEBIT PURCHASE''"
    by (simp only: eval_base re_eval str_eval bal_eval cong: eval_cong)
  have c4: "\<not> str_includes ''Nov 3 VISA DEBIT PURCHASE'' ''CORRECTION''"
    by (simp only: eval_base re_eval str_eval bal_eval cong: eval_cong)
  have c5: "list_ex (\<lambda>p. re_test p ''Nov 3 VISA DEBIT PURCHASE'') bal_patterns"
    by (simp only: eval_base re_eval str_eval bal_eval cong: eval_cong)
  have tk: "?tokens = re_match_all (RE num_token)
      (join '' '' (map (\<lambda>j. ?lines ! j) [Suc 0 ..< min (Suc 0 + 3) (length ?lines)]))"
    by (simp only: window tokens)
  have cond: "\<not> bal_skip ''Nov 3 VISA DEBIT PURCHASE''
      \<and> (bal_dateMatch ''cibc'' ''Nov 3 VISA DEBIT PURCHASE'' ''2025'' \<noteq> None \<or> currentDate ?st \<noteq> None)
      \<and> \<not> re_test bal_just_balance ''Nov 3 VISA DEBIT PURCHASE''
      \<and> \<not> str_includes ''Nov 3 VISA DEBIT PURCHASE'' ''CORRECTION''
      \<and> list_ex (\<lambda>p. re_test p ''Nov 3 VISA DEBIT PURCHASE'') bal_patterns
      \<and> ?tokens \<noteq> []
      \<and> previousBalance ?st \<noteq> None"
    by (intro conjI disjI1 c1 c2 c3 c4 c5) simp_all
  have len: "Suc 0 < length ?lines"
    by simp
  note th = balance_reconciliation [of ?lines ?text "Suc 0" ?st "''2025''" "''cibc''"
      "bal_step ''2025'' ''cibc'' ?lines (Suc 0) ?st" "''Nov 3 VISA DEBIT PURCHASE''" ?tokens 101475,
      OF lines [symmetric] len st [symmetric] refl line [symmetric] tk nb, unfolded if_P [OF cond]]
  then obtain pb t where "previousBalance ?st = Some pb"
    and "transactions (bal_step ''2025'' ''cibc'' ?lines (Suc 0) ?st) = transactions ?st @ [t]"
    and "b_balance t = 101475" and "b_amount t = pb - 101475"
    and "previousBalance (bal_step ''2025'' ''cibc'' ?lines (Suc 0) ?st) = Some 101475"
    by blast
  then have step: "map b_balance (transactions (bal_step ''2025'' ''cibc'' ?lines (Suc 0) ?st)) = [101475]"
    "map b_amount (transactions (bal_step ''2025'' ''cibc'' ?lines (Suc 0) ?st)) = [10000]"
    "previousBalance (bal_step ''2025'' ''cibc'' ?lines (Suc 0) ?st) = Some 101475"
    by simp_all
  have out: "map b_amount (bal_parseTransactions ?text ''2025'' ''cibc'') = [10000]"
    by (simp only: eval_base re_eval str_eval bal_eval mem_ws cong: eval_cong)
  from lines o tokens step out show ?thesis
    by (intro conjI)
qed




text \<open>
  Claim C10. The type of every emitted transaction follows the sign of its amount alone:
  credit when previous balance minus new balance is negative, debit otherwise. The
  keyword match of the line (\<open>isCredit\<close> in the source) does not reach the result: with
  any other keyword test in its place, \<open>parseTransactionLine\<close> returns the same.
\<close>

theorem type_from_balance_delta:
  "(\<forall>t \<in> set (bal_parseTransactions text year bank).
      b_type t = (if b_amount t < 0 then ''credit'' else ''debit''))
   \<and> (bal_parseTransactionLine line date allLines i pbo = Some t \<longrightarrow>
        (\<exists>pb. pbo = Some pb \<and> b_amount t = pb - b_balance t)
        \<and> (b_type t = ''credit'' \<longleftrightarrow> b_amount t < 0)
        \<and> (b_type t = ''debit'' \<longleftrightarrow> \<not> b_amount t < 0))
   \<and> bal_parseTransactionLine_with keyword line date allLines i pbo
        = bal_parseTransactionLine line date allLines i pbo"
proof (intro conjI impI)
  show "\<forall>t \<in> set (bal_parseTransactions text year bank).
      b_type t = (if b_amount t < 0 then ''credit'' else ''debit'')"
    using bal_parseTransactions_inv [of "text" year bank] by blast
next
  assume "bal_parseTransactionLine line date allLines i pbo = Some t"
  then have "bal_parseTransactionLine_with (re_test bal_isCredit) line date allLines i pbo = Some t"
    by (simp add: bal_parseTransactionLine_def)
  from bal_line_Some [OF this] obtain pb where pb: "pbo = Some pb"
    and t: "t = bal_transaction (re_test bal_isCredit line) line date (bal_merchant allLines i) pb
              (bal_currentBalance (re_match_all (RE num_token) (searchText allLines i)))"
    by auto
  from pb t show "\<exists>pb. pbo = Some pb \<and> b_amount t = pb - b_balance t"
    by (simp add: bal_transaction_fields)
  from t show "b_type t = ''credit'' \<longleftrightarrow> b_amount t < 0"
    by (simp add: bal_transaction_fields)
  from t show "b_type t = ''debit'' \<longleftrightarrow> \<not> b_amount t < 0"
    by (simp add: bal_transaction_fields)
next
  show "bal_parseTransactionLine_with keyword line date allLines i pbo
        = bal_parseTransactionLine line date allLines i pbo"
    by (simp add: bal_parseTransactionLine_def bal_parseTransactionLine_with_def
        bal_transaction_def Let_def split: option.splits)
qed

theorem type_from_balance_delta_witness:
  "re_test bal_isCredit ''Nov 3 DEPOSIT 900.00''
   \<and> map_option b_type (bal_parseTransactionLine ''Nov 3 DEPOSIT 900.00'' ''2025-11-03''
        [''Nov 3 DEPOSIT 900.00''] 0 (Some 100000)) = Some ''debit''
   \<and> map_option b_amount (bal_parseTransactionLine ''Nov 3 DEPOSIT 900.00'' ''2025-11-03''
        [''Nov 3 DEPOSIT 900.00''] 0 (Some 100000)) = Some 10000
   \<and> bal_parseTransactionLine_with (\<lambda>line. False) ''Nov 3 DEPOSIT 900.00'' ''2025-11-03''
        [''Nov 3 DEPOSIT 900.00''] 0 (Some 100000)
      = bal_parseTransactionLine ''Nov 3 DEPOSIT 900.00'' ''2025-11-03''
        [''Nov 3 DEPOSIT 900.00''] 0 (Some 100000)"
proof -
  let ?r = "bal_parseTransactionLine ''Nov 3 DEPOSIT 900.00'' ''2025-11-03''
        [''Nov 3 DEPOSIT 900.00''] 0 (Some 100000)"
  have k: "re_test bal_isCredit ''Nov 3 DEPOSIT 900.00''"
    by (simp only: eval_base re_eval str_eval bal_eval cong: eval_cong)
  have a: "map_option b_amount ?r = Some 10000"
    by (simp only: eval_base re_eval str_eval bal_eval cong: eval_cong)
  then obtain t where t: "?r = Some t" "b_amount t = 10000"
    by auto
  from type_from_balance_delta [of _ _ _ "''Nov 3 DEPOSIT 900.00''" "''2025-11-03''"
      "[''Nov 3 DEPOSIT 900.00'']" 0 "Some 100000" t "\<lambda>line. False"] t
  have "b_type t = ''debit''"
    and "bal_parseTransactionLine_with (\<lambda>line. False) ''Nov 3 DEPOSIT 900.00'' ''2025-11-03''
        [''Nov 3 DEPOSIT 900.00''] 0 (Some 100000) = ?r"
    by simp_all
  with k a t show ?thesis
    by simp
qed

section \<open>Properties of the extractors: amounts, corrections, glued numbers\<close>

lemma cibc_amount_None:
  "re_match (RE (Grp 1 num_token)) s = None \<longleftrightarrow> \<not> has_token s"
proof -
  have "re_match (RE (Grp 1 num_token)) s = None \<longleftrightarrow> \<not> re_test (RE (Grp 1 num_token)) s"
    by (cases "re_search (RE (Grp 1 num_token)) None s") (simp_all add: re_match_def re_test_def)
  then show ?thesis
    by (simp only: re_test_Grp has_token_def)
qed

lemma cibc_try_patterns_None:
  "\<not> has_token (searchText allLines i) \<Longrightarrow> cibc_try_patterns ps line date allLines i = None"
  by (induction ps) (simp_all add: cibc_amount_None [symmetric])

lemma cibc_try_patterns_Some:
  "cibc_try_patterns ps line date allLines i = Some t \<Longrightarrow>
     \<exists>m g. re_match (RE (Grp 1 num_token)) (searchText allLines i) = Some (m, g)
       \<and> \<bar>t_amount t\<bar> = parseFloat_cents (replace_commas (group g 1))"
proof (induction ps)
  case Nil
  then show ?case
    by simp
next
  case (Cons p ps)
  have nonneg: "0 \<le> parseFloat_cents s" for s
    by (simp add: parseFloat_cents_def)
  from Cons show ?case
    using nonneg
    by (auto simp add: Let_def split: if_splits option.splits)
qed

lemma rbc_amount_no_token:
  assumes "i + 1 < length allLines \<longrightarrow> \<not> has_token (trim (allLines ! (i + 1)))"
  shows "rbc_amount allLines i = 0"
proof (cases "i + 1 < length allLines")
  case True
  with assms have "re_match_all (RE num_token) (trim (allLines ! (i + 1))) = []"
    by (simp add: re_match_all_Nil has_token_def)
  with True show ?thesis
    by (simp add: rbc_amount_def)
next
  case False
  then show ?thesis
    by (simp add: rbc_amount_def)
qed

lemma rbc_try_patterns_None:
  "rbc_amount allLines i \<le> 0 \<Longrightarrow> rbc_try_patterns ps line date allLines i = None"
  by (induction ps) (simp_all add: Let_def)

lemma rbc_try_patterns_Some:
  "rbc_try_patterns ps line date allLines i = Some t \<Longrightarrow>
     0 < rbc_amount allLines i \<and> \<bar>t_amount t\<bar> = rbc_amount allLines i"
  by (induction ps) (auto simp add: Let_def split: if_splits)

text \<open>
  Claim C7. A line whose search for an amount finds no decimal token yields no
  transaction: the balance-reconciliation and the CIBC extractor search the line and up
  to two lines after it, the RBC extractor the next line. The pass of the loop at that
  line then leaves the transactions as they are, and the loop goes on at the next index.
  What is emitted has its amount from a token: RBC emits no amount of zero (zero is its
  default), the absolute amount of CIBC is the value of the first token found, and the
  balance-reconciliation extractor emits only where a token gives the balance.
\<close>

theorem no_amount_no_transaction:
  "(\<not> has_token (searchText lines i) \<longrightarrow>
       bal_parseTransactionLine line date lines i pbo = None
     \<and> cibc_parseTransactionLine line date lines i = None
     \<and> transactions (bal_step year bank lines i bst) = transactions bst
     \<and> s_transactions (cibc_step year lines i st) = s_transactions st)
   \<and> ((i + 1 < length lines \<longrightarrow> \<not> has_token (trim (lines ! (i + 1)))) \<longrightarrow>
       rbc_parseTransactionLine line date lines i = None
     \<and> s_transactions (rbc_step year lines i st) = s_transactions st)
   \<and> (i < length lines \<longrightarrow>
       bal_loop year bank lines i bst = bal_loop year bank lines (Suc i) (bal_step year bank lines i bst)
     \<and> cibc_loop year lines i st = cibc_loop year lines (Suc i) (cibc_step year lines i st)
     \<and> rbc_loop year lines i st = rbc_loop year lines (Suc i) (rbc_step year lines i st))
   \<and> (bal_parseTransactionLine line date lines i pbo = Some bt \<longrightarrow> has_token (searchText lines i))
   \<and> (cibc_parseTransactionLine line date lines i = Some t \<longrightarrow>
       (\<exists>m g. re_match (RE (Grp 1 num_token)) (searchText lines i) = Some (m, g)
          \<and> \<bar>t_amount t\<bar> = parseFloat_cents (replace_commas (group g 1))))
   \<and> (rbc_parseTransactionLine line date lines i = Some t \<longrightarrow> t_amount t \<noteq> 0)"
proof (intro conjI impI)
  assume no: "\<not> has_token (searchText lines i)"
  then have nil: "re_match_all (RE num_token) (searchText lines i) = []"
    by (simp add: re_match_all_Nil has_token_def)
  then show bal: "bal_parseTransactionLine line date lines i pbo = None" for line date pbo
    by (simp add: bal_parseTransactionLine_def bal_parseTransactionLine_with_def)
  from no show cibc: "cibc_parseTransactionLine line date lines i = None" for line date
    by (simp add: cibc_parseTransactionLine_def cibc_try_patterns_None)
  from bal show "transactions (bal_step year bank lines i bst) = transactions bst"
    by (simp add: bal_step_def Let_def split: option.splits)
  from cibc show "s_transactions (cibc_step year lines i st) = s_transactions st"
    by (simp add: cibc_step_def Let_def push_def split: option.splits)
next
  assume "i + 1 < length lines \<longrightarrow> \<not> has_token (trim (lines ! (i + 1)))"
  then have "rbc_amount lines i = 0"
    by (rule rbc_amount_no_token)
  then show rbc: "rbc_parseTransactionLine line date lines i = None" for line date
    by (simp add: rbc_parseTransactionLine_def rbc_try_patterns_None)
  then show "s_transactions (rbc_step year lines i st) = s_transactions st"
    by (simp add: rbc_step_def Let_def push_def split: option.splits)
next
  assume "i < length lines"
  then show "bal_loop year bank lines i bst = bal_loop year bank lines (Suc i) (bal_step year bank lines i bst)"
    by (subst bal_loop.simps) simp
next
  assume "i < length lines"
  then show "cibc_loop year lines i st = cibc_loop year lines (Suc i) (cibc_step year lines i st)"
    by (subst cibc_loop.simps) simp
next
  assume "i < length lines"
  then show "rbc_loop year lines i st = rbc_loop year lines (Suc i) (rbc_step year lines i st)"
    by (subst rbc_loop.simps) simp
next
  assume "bal_parseTransactionLine line date lines i pbo = Some bt"
  then have "bal_parseTransactionLine_with (re_test bal_isCredit) line date lines i pbo = Some bt"
    by (simp add: bal_parseTransactionLine_def)
  from bal_line_Some [OF this] show "has_token (searchText lines i)"
    by (simp add: re_match_all_Nil has_token_def)
next
  assume "cibc_parseTransactionLine line date lines i = Some t"
  then have "cibc_try_patterns cibc_patterns line date lines i = Some t"
    by (simp add: cibc_parseTransactionLine_def split: if_splits)
  then show "\<exists>m g. re_match (RE (Grp 1 num_token)) (searchText lines i) = Some (m, g)
          \<and> \<bar>t_amount t\<bar> = parseFloat_cents (replace_commas (group g 1))"
    by (rule cibc_try_patterns_Some)
next
  assume "rbc_parseTransactionLine line date lines i = Some t"
  then have "rbc_try_patterns rbc_patterns line date lines i = Some t"
    by (simp add: rbc_parseTransactionLine_def split: if_splits)
  from rbc_try_patterns_Some [OF this] show "t_amount t \<noteq> 0"
    by auto
qed

theorem no_amount_no_transaction_witness:
  "\<not> has_token (searchText [''VISA DEBIT PURCHASE'', ''UBER''] 0)
   \<and> bal_parseTransactionLine ''VISA DEBIT PURCHASE'' ''2025-11-03'' [''VISA DEBIT PURCHASE'', ''UBER''] 0
        (Some 100) = None
   \<and> cibc_parseTransactionLine ''VISA DEBIT PURCHASE'' ''2025-11-03'' [''VISA DEBIT PURCHASE'', ''UBER''] 0
        = None
   \<and> \<not> has_token (trim ([''Monthly fee'', ''RBC''] ! (0 + 1)))
   \<and> rbc_parseTransactionLine ''Monthly fee'' ''2025-11-03'' [''Monthly fee'', ''RBC''] 0 = None
   \<and> map_option t_amount
        (rbc_parseTransactionLine ''Monthly fee'' ''2025-11-03'' [''Monthly fee'', ''4.00''] 0)
        = Some (- 400)"
proof -
  have a: "\<not> has_token (searchText [''VISA DEBIT PURCHASE'', ''UBER''] 0)"
    by (simp only: eval_base re_eval str_eval has_token_def searchText_def num_token_def
        cong: eval_cong)
  have b: "\<not> has_token (trim ([''Monthly fee'', ''RBC''] ! (0 + 1)))"
    by (simp only: eval_base re_eval str_eval has_token_def num_token_def mem_ws cong: eval_cong)
  have c: "map_option t_amount
        (rbc_parseTransactionLine ''Monthly fee'' ''2025-11-03'' [''Monthly fee'', ''4.00''] 0)
        = Some (- 400)"
    by (simp only: eval_base re_eval str_eval rbc_eval mem_ws cong: eval_cong)
  from a no_amount_no_transaction [of "[''VISA DEBIT PURCHASE'', ''UBER'']" 0
      "''VISA DEBIT PURCHASE''" "''2025-11-03''" "Some 100"]
  have "bal_parseTransactionLine ''VISA DEBIT PURCHASE'' ''2025-11-03''
          [''VISA DEBIT PURCHASE'', ''UBER''] 0 (Some 100) = None"
    and "cibc_parseTransactionLine ''VISA DEBIT PURCHASE'' ''2025-11-03''
          [''VISA DEBIT PURCHASE'', ''UBER''] 0 = None"
    by blast+
  moreover from b no_amount_no_transaction [of "[''Monthly fee'', ''RBC'']" 0
      "''Monthly fee''" "''2025-11-03''"]
  have "rbc_parseTransactionLine ''Monthly fee'' ''2025-11-03'' [''Monthly fee'', ''RBC''] 0 = None"
    by blast
  ultimately show ?thesis
    using a b c by blast
qed

lemma cibc_loop_end: "cibc_loop year lines (length lines) st = st"
  by (subst cibc_loop.simps) simp













text \<open>
  Claim C8 against the code. The claim, and the comment of the source beside the
  pattern (\<open>"873.98" -> "3.98"\<close>, \<open>"87110.71" -> "10.71"\<close>), take the last one to three
  digits before the point as the amount. The pattern \<open>(\d{1,3})\.(\d{2})$\<close> is searched
  from the left and its quantifier is greedy, so it always takes three digits: from
  \<open>873.98\<close> the amount 873.98, from \<open>87110.71\<close> the amount 110.71.
\<close>

theorem glued_number_takes_three_digits:
  "rbc_single_amount ''873.98'' = 87398
   \<and> rbc_single_amount ''87110.71'' = 11071
   \<and> map_option t_amount
        (rbc_parseTransactionLine ''Contactless Interac purchase - [REF]'' ''2025-10-27''
           [''27 Oct Contactless Interac purchase - [REF]'', ''FOOD BASICS 873.98''] 0)
      = Some (- 87398)"
  by (simp only: eval_base re_eval str_eval rbc_eval mem_ws cong: eval_cong)

section \<open>Properties of learning\<close>




end
